theory Spec2Isabelle
  imports Main
begin

section \<open>Python values shared by the realm and the security manager\<close>

text \<open>
  Exceptions are values.  A Python call that raises returns \<open>Inl e\<close>, one that returns
  normally returns \<open>Inr v\<close>.  Every constructor below is an instance of Python's
  \<open>Exception\<close>, so an \<open>except Exception\<close> clause catches each of them.
  \<open>AdditionalAuthenticationRequired\<close> carries the attribute \<open>account_id\<close> that
  \<open>login\<close> reads (\<open>None\<close> when the exception is raised without arguments).
  \<open>OtherException\<close> stands for any error of a collaborator (store unavailable, invalid
  Fernet token, failed deserialisation).
\<close>

type_synonym identifier_collection = "string list"

datatype exn =
    NameError string
  | AttributeError
  | TypeError
  | IndexError
  | ValueError
  | StopIteration
  | RuntimeError
  | UnboundLocalError string
  | RealmMisconfiguredException
  | GetCachedCredentialsException
  | CacheCredentialsException
  | ClearCacheCredentialsException
  | IncorrectCredentialsException
  | AuthenticationException
  | AdditionalAuthenticationRequired "identifier_collection option"
  | InvalidSessionException
  | OtherException string

text \<open>An authentication token and an account are objects: both are truthy in Python.\<close>

record token =
  tok_identifier :: string
  tok_credentials :: string
  is_remember_me :: bool

record account =
  acct_identifier :: string
  acct_credentials :: string

section \<open>realm.py: AccountStoreRealm and DefaultCredentialsCacheHandler\<close>

text \<open>
  The \<open>identifiers\<close> argument of the realm's methods is either a plain string (as
  \<open>authc_token.identifier\<close>) or a collection object.  The difference is visible where
  the source concatenates it to a string literal.
\<close>

datatype ident = IdentStr string | IdentCollection "string list"

text \<open>
  The keyword arguments the cache handler passes to its two resolvers:
  \<open>(authc_token=...)\<close>, \<open>(authc_token=..., account=...)\<close> and \<open>(account_id=...)\<close>.
\<close>

datatype lookup = ByToken token | ByTokenAccount token account | ByAccountId ident

text \<open>
  \<open>DefaultCredentialsCacheHandler\<close>: \<open>get_cache\<close> is
  \<open>credentials_cache_resolver.get_cache\<close> (which cache, \<open>None\<close> when it finds none) and
  \<open>get_cache_key\<close> is \<open>credentials_cache_key_resolver.get_cache_key\<close>.
\<close>

record cache_handler =
  get_cache :: "lookup \<Rightarrow> nat option"
  get_cache_key :: "lookup \<Rightarrow> string option"

datatype store_call = GetAccount token | GetAuthzInfo ident

text \<open>
  The state the realm works on: the calls made to the account store so far, in order,
  and the contents of the credentials caches (a cache maps a key to an account).
\<close>

record realm_state =
  store_calls :: "store_call list"
  caches :: "nat \<Rightarrow> string \<rightharpoonup> account"

text \<open>\<open>not key\<close>: a key is falsy when it is \<open>None\<close> or the empty string.\<close>

definition key_falsy :: "string option \<Rightarrow> bool" where
  "key_falsy key = (case key of None \<Rightarrow> True | Some k \<Rightarrow> k = [])"

text \<open>\<open>cache.get(key)\<close>: nothing is stored under \<open>None\<close>.\<close>

definition cache_get :: "(string \<rightharpoonup> account) \<Rightarrow> string option \<Rightarrow> account option" where
  "cache_get m key = (case key of None \<Rightarrow> None | Some k \<Rightarrow> m k)"

text \<open>
  \<open>get_cached_credentials\<close>: \<open>cache.get(key)\<close> on the resolved cache; \<open>cache\<close> being
  \<open>None\<close> raises \<open>AttributeError\<close>, which the handler turns into
  \<open>GetCachedCredentialsException\<close>.
\<close>

definition get_cached_credentials ::
  "cache_handler \<Rightarrow> token \<Rightarrow> realm_state \<Rightarrow> exn + account option" where
  "get_cached_credentials h authc_token s =
     (case get_cache h (ByToken authc_token) of
        None \<Rightarrow> Inl GetCachedCredentialsException
      | Some cache \<Rightarrow> Inr (cache_get (caches s cache) (get_cache_key h (ByToken authc_token))))"

text \<open>
  \<open>cache_credentials\<close>: a falsy key raises \<open>CacheCredentialsException\<close>; otherwise
  \<open>cache.put(key, account)\<close>, where \<open>cache\<close> being \<open>None\<close> raises \<open>AttributeError\<close>,
  turned into \<open>CacheCredentialsException\<close> as well.
\<close>

definition cache_credentials ::
  "cache_handler \<Rightarrow> token \<Rightarrow> account \<Rightarrow> realm_state \<Rightarrow> (exn + unit) \<times> realm_state" where
  "cache_credentials h authc_token acct s =
     (let cache = get_cache h (ByTokenAccount authc_token acct);
          key = get_cache_key h (ByTokenAccount authc_token acct)
      in if key_falsy key then (Inl CacheCredentialsException, s)
         else (case (cache, key) of
                 (Some c, Some k) \<Rightarrow>
                   (Inr (), s\<lparr>caches := (caches s)(c := (caches s c)(k \<mapsto> acct))\<rparr>)
               | _ \<Rightarrow> (Inl CacheCredentialsException, s)))"

text \<open>
  The handler's own \<open>clear_cached_credentials\<close>: with a falsy key it raises
  \<open>ClearCacheCredentialsException\<close> when there is no cache either and returns \<open>None\<close>
  otherwise; with a key it returns \<open>cache.remove(key)\<close>, the removed account.
\<close>

definition handler_clear_cached_credentials ::
  "cache_handler \<Rightarrow> ident \<Rightarrow> realm_state \<Rightarrow> (exn + account option) \<times> realm_state" where
  "handler_clear_cached_credentials h account_id s =
     (let cache = get_cache h (ByAccountId account_id);
          key = get_cache_key h (ByAccountId account_id)
      in if key_falsy key
         then (case cache of None \<Rightarrow> (Inl ClearCacheCredentialsException, s)
               | Some c \<Rightarrow> (Inr None, s))
         else (case (cache, key) of
                 (Some c, Some k) \<Rightarrow>
                   (Inr (caches s c k), s\<lparr>caches := (caches s)(c := (caches s c)(k := None))\<rparr>)
               | _ \<Rightarrow> (Inl ClearCacheCredentialsException, s)))"

text \<open>
  A requested permission is passed either in string form or as a resolved permission
  object.  Permission objects are opaque (type \<open>'p\<close>); what the realm uses of them is
  \<open>permission.domain\<close>, an iterable of strings given here in its iteration order
  (\<open>None\<close> when it is not iterable), and \<open>authz_perm.implies(reqstd_perm)\<close>.
\<close>

datatype 'p perm_arg = PermStr string | PermObj 'p

record 'p permission_ops =
  domain :: "'p \<Rightarrow> string list option"
  implies :: "'p \<Rightarrow> 'p \<Rightarrow> bool"

text \<open>The collection passed to \<open>is_permitted\<close>: a list, or a set (which has no index).\<close>

datatype 'a collection = PyList "'a list" | PySet "'a list"

text \<open>
  The authorization info of an account: its role ids and its permissions, indexed by
  domain.
\<close>

record 'p authz_info =
  roleids :: "string set"
  permissions_by_domain :: "string \<Rightarrow> 'p list"

text \<open>
  The account store (absent from the module: a collaborator).  \<open>get_account\<close> returns
  the account of a token, \<open>None\<close> when it has no matching record, and may raise.
  \<open>get_authz_info\<close> returns the roles and permissions of an account, and may raise.
\<close>

record 'p account_store_ops =
  get_account :: "token \<Rightarrow> exn + account option"
  get_authz_info :: "ident \<Rightarrow> exn + 'p authz_info"

text \<open>
  Modelled from the spec: \<open>IndexedAuthorizationInfo.get_permission\<close>, whose class is not
  in the module.  The spec describes the permissions of an authorization info as a
  collection indexed by a domain key, with \<open>*\<close> the wildcard domain; looking a domain up
  gives the permissions stored under it.
\<close>

definition get_permission :: "'p authz_info \<Rightarrow> string \<Rightarrow> 'p list" where
  "get_permission info d = permissions_by_domain info d"

text \<open>
  The realm and its collaborators.  \<open>credentials_matcher\<close> is
  \<open>credentials_matcher.credentials_match\<close>; \<open>authorization_cache_handler\<close> is the
  handler's \<open>get_cached_authorization_info\<close>; \<open>permission_resolver\<close> is the resolver's
  \<open>resolve_permission\<close>.  An unset collaborator is \<open>None\<close>.
\<close>

record 'p realm =
  account_store :: "'p account_store_ops option"
  credentials_matcher :: "token \<Rightarrow> account option \<Rightarrow> bool"
  credentials_cache_handler :: "cache_handler option"
  authorization_cache_handler :: "(ident \<Rightarrow> exn + 'p authz_info option) option"
  permission_resolver :: "('p perm_arg \<Rightarrow> exn + 'p) option"

subsection \<open>Authentication\<close>

text \<open>
  \<open>clear_cached_credentials\<close>: its body is the single statement
  \<open>cch.clear_cache(identifiers)\<close>.  The name \<open>cch\<close> is neither a parameter nor a local
  of this method (it is a local of \<open>get_credentials\<close>) and the module binds no global of
  that name, so evaluating it raises \<open>NameError\<close> before anything is called.
\<close>

definition clear_cached_credentials ::
  "'p realm \<Rightarrow> ident \<Rightarrow> realm_state \<Rightarrow> (exn + unit) \<times> realm_state" where
  "clear_cached_credentials r identifiers s = (Inl (NameError ''cch''), s)"

text \<open>
  \<open>get_credentials\<close>: the cache first, when a handler is set; on no cached account the
  account store (an unset store raises \<open>AttributeError\<close>, turned into
  \<open>RealmMisconfiguredException\<close>, as is an \<open>AttributeError\<close> of the store itself); an
  account found in the store is cached when a handler is set.
\<close>

definition get_credentials ::
  "'p realm \<Rightarrow> token \<Rightarrow> realm_state \<Rightarrow> (exn + account option) \<times> realm_state" where
  "get_credentials r authc_token s =
     (case (case credentials_cache_handler r of
              None \<Rightarrow> Inr None
            | Some cch \<Rightarrow> get_cached_credentials cch authc_token s) of
        Inl e \<Rightarrow> (Inl e, s)
      | Inr (Some acct) \<Rightarrow> (Inr (Some acct), s)
      | Inr None \<Rightarrow>
          (case account_store r of
             None \<Rightarrow> (Inl RealmMisconfiguredException, s)
           | Some store \<Rightarrow>
               (let s1 = s\<lparr>store_calls := store_calls s @ [GetAccount authc_token]\<rparr>
                in case get_account store authc_token of
                     Inl e \<Rightarrow>
                       (Inl (if e = AttributeError then RealmMisconfiguredException else e), s1)
                   | Inr None \<Rightarrow> (Inr None, s1)
                   | Inr (Some acct) \<Rightarrow>
                       (case credentials_cache_handler r of
                          None \<Rightarrow> (Inr (Some acct), s1)
                        | Some cch \<Rightarrow>
                            (case cache_credentials cch authc_token acct s1 of
                               (Inl e, s2) \<Rightarrow> (Inl e, s2)
                             | (Inr u, s2) \<Rightarrow> (Inr (Some acct), s2))))))"

definition assert_credentials_match :: "'p realm \<Rightarrow> token \<Rightarrow> account option \<Rightarrow> exn + unit" where
  "assert_credentials_match r authc_token acct =
     (if \<not> credentials_matcher r authc_token acct then Inl IncorrectCredentialsException
      else Inr ())"

definition authenticate_account ::
  "'p realm \<Rightarrow> token \<Rightarrow> realm_state \<Rightarrow> (exn + account option) \<times> realm_state" where
  "authenticate_account r authc_token s =
     (case get_credentials r authc_token s of
        (Inl e, s1) \<Rightarrow> (Inl e, s1)
      | (Inr acct, s1) \<Rightarrow>
          (case assert_credentials_match r authc_token acct of
             Inl e \<Rightarrow> (Inl e, s1)
           | Inr u \<Rightarrow>
               (case clear_cached_credentials r (IdentStr (tok_identifier authc_token)) s1 of
                  (Inl e, s2) \<Rightarrow> (Inl e, s2)
                | (Inr u, s2) \<Rightarrow> (Inr acct, s2))))"

subsection \<open>Authorization\<close>

text \<open>
  \<open>get_authorization_info\<close>.  With a cache handler set, the cache is asked and then the
  log message is built as \<open>"..." + identifiers + "]"\<close>, which raises \<open>TypeError\<close>
  unless \<open>identifiers\<close> is a string.  When there is no cached info the account store is
  asked (an unset store raises \<open>AttributeError\<close>) and the info is built by calling
  \<open>IndexedAuthorizationInfo\<close>, a name the module neither imports nor defines: the call
  raises \<open>NameError\<close>, so the statements after it (caching the info) are never reached.
\<close>

definition fetch_authorization_info ::
  "'p realm \<Rightarrow> ident \<Rightarrow> realm_state \<Rightarrow> (exn + 'p authz_info) \<times> realm_state" where
  "fetch_authorization_info r identifiers s =
     (case account_store r of
        None \<Rightarrow> (Inl AttributeError, s)
      | Some store \<Rightarrow>
          (let s1 = s\<lparr>store_calls := store_calls s @ [GetAuthzInfo identifiers]\<rparr>
           in case get_authz_info store identifiers of
                Inl e \<Rightarrow> (Inl e, s1)
              | Inr u \<Rightarrow> (Inl (NameError ''IndexedAuthorizationInfo''), s1)))"

definition get_authorization_info ::
  "'p realm \<Rightarrow> ident \<Rightarrow> realm_state \<Rightarrow> (exn + 'p authz_info) \<times> realm_state" where
  "get_authorization_info r identifiers s =
     (case authorization_cache_handler r of
        None \<Rightarrow> fetch_authorization_info r identifiers s
      | Some ach \<Rightarrow>
          (case ach identifiers of
             Inl e \<Rightarrow> (Inl e, s)
           | Inr cached \<Rightarrow>
               (case identifiers of
                  IdentCollection c \<Rightarrow> (Inl TypeError, s)
                | IdentStr i \<Rightarrow>
                    (case cached of
                       Some info \<Rightarrow> (Inr info, s)
                     | None \<Rightarrow> fetch_authorization_info r identifiers s))))"

text \<open>
  \<open>get_authzd_permissions\<close>: the permissions stored under \<open>*\<close> chained with those
  stored under the first domain of the requested permission, as a frozenset (here: the
  chain without duplicates).  A missing \<open>authz_info\<close> and a string in place of the
  permission raise \<open>AttributeError\<close>, an empty domain raises \<open>StopIteration\<close>; only
  \<open>TypeError\<close> (a domain that is not iterable) is caught, and then the \<open>return\<close>
  reads the unbound local \<open>domain_perms\<close>.
\<close>

definition get_authzd_permissions ::
  "'p permission_ops \<Rightarrow> 'p authz_info option \<Rightarrow> 'p perm_arg \<Rightarrow> exn + 'p list" where
  "get_authzd_permissions ops authz_info permission =
     (case authz_info of
        None \<Rightarrow> Inl AttributeError
      | Some info \<Rightarrow>
          (let wildcard_perms = get_permission info ''*''
           in case permission of
                PermStr str \<Rightarrow> Inl AttributeError
              | PermObj p \<Rightarrow>
                  (case domain ops p of
                     None \<Rightarrow> Inl (UnboundLocalError ''domain_perms'')
                   | Some [] \<Rightarrow> Inl StopIteration
                   | Some (requested_domain # ds) \<Rightarrow>
                       Inr (remdups (wildcard_perms @ get_permission info requested_domain)))))"

text \<open>
  The inner loop of \<open>is_permitted\<close>: the candidates are tested in turn and the loop
  breaks at the first one that implies the requested permission.  The result is the flag
  \<open>is_permitted\<close> together with the candidates that were tested.  (Python does not fix
  the iteration order of a frozenset; the model iterates in the order of the chain, and
  the flag is the same for every order.)
\<close>

fun authorized_scan :: "'p permission_ops \<Rightarrow> 'p \<Rightarrow> 'p list \<Rightarrow> bool \<times> 'p list" where
  "authorized_scan ops reqstd_perm [] = (False, [])"
| "authorized_scan ops reqstd_perm (authz_perm # rest) =
     (if implies ops authz_perm reqstd_perm then (True, [authz_perm])
      else (case authorized_scan ops reqstd_perm rest of
              (found, tested) \<Rightarrow> (found, authz_perm # tested)))"

text \<open>
  \<open>resolve_permissions\<close>: the set of the resolved permissions (the resolved list without
  duplicates); an unset resolver, an \<open>AttributeError\<close> and a \<open>TypeError\<close> give the
  empty set, any other exception propagates.
\<close>

fun resolve_each :: "('p perm_arg \<Rightarrow> exn + 'p) \<Rightarrow> 'p perm_arg list \<Rightarrow> exn + 'p list" where
  "resolve_each resolver [] = Inr []"
| "resolve_each resolver (perm # rest) =
     (case resolver perm of
        Inl e \<Rightarrow> Inl e
      | Inr p \<Rightarrow> (case resolve_each resolver rest of Inl e \<Rightarrow> Inl e | Inr ps \<Rightarrow> Inr (p # ps)))"

definition resolve_permissions :: "'p realm \<Rightarrow> 'p perm_arg list \<Rightarrow> exn + 'p perm_arg list" where
  "resolve_permissions r string_perms =
     (case permission_resolver r of
        None \<Rightarrow> Inr []
      | Some resolver \<Rightarrow>
          (case resolve_each resolver string_perms of
             Inl e \<Rightarrow> (if e = AttributeError \<or> e = TypeError then Inr [] else Inl e)
           | Inr ps \<Rightarrow> Inr (map PermObj (remdups ps))))"

definition is_str :: "'p perm_arg \<Rightarrow> bool" where
  "is_str x = (case x of PermStr s \<Rightarrow> True | PermObj p \<Rightarrow> False)"

text \<open>
  \<open>is_permitted\<close> is a generator: the model returns the pairs it yields, in order, and
  the exception that ended it, if any.  \<open>requested_perms\<close> is the part before the loop
  that reads \<open>permission_s[0]\<close>; \<open>is_permitted_loop\<close> is the loop over the requested
  permissions.  An exception inside the loop ends the generator after the pairs yielded
  so far.  A \<open>StopIteration\<close> that reaches the body of a generator leaves it as
  \<open>RuntimeError\<close> (\<open>generator_error\<close>).  (A string among the requested permissions
  never gets past \<open>get_authzd_permissions\<close>, which reads its \<open>domain\<close>.)
\<close>

definition generator_error :: "exn \<Rightarrow> exn" where
  "generator_error e = (if e = StopIteration then RuntimeError else e)"

definition requested_perms ::
  "'p realm \<Rightarrow> 'p perm_arg collection \<Rightarrow> exn + 'p perm_arg list" where
  "requested_perms r permission_s =
     (case permission_s of
        PySet xs \<Rightarrow> Inl TypeError
      | PyList [] \<Rightarrow> Inl IndexError
      | PyList (first # rest) \<Rightarrow>
          (if is_str first then resolve_permissions r (first # rest)
           else Inr (first # rest)))"

fun is_permitted_loop ::
  "'p permission_ops \<Rightarrow> 'p authz_info \<Rightarrow> 'p perm_arg list
     \<Rightarrow> ('p perm_arg \<times> bool) list \<times> exn option" where
  "is_permitted_loop ops authz_info [] = ([], None)"
| "is_permitted_loop ops authz_info (reqstd_perm # rest) =
     (case get_authzd_permissions ops (Some authz_info) reqstd_perm of
        Inl e \<Rightarrow> ([], Some (generator_error e))
      | Inr authorized_perms \<Rightarrow>
          (case reqstd_perm of
             PermStr str \<Rightarrow> ([], Some AttributeError)
           | PermObj p \<Rightarrow>
               (case is_permitted_loop ops authz_info rest of
                  (yielded, err) \<Rightarrow>
                    ((reqstd_perm, fst (authorized_scan ops p authorized_perms)) # yielded, err))))"

definition is_permitted ::
  "'p realm \<Rightarrow> 'p permission_ops \<Rightarrow> ident \<Rightarrow> 'p perm_arg collection \<Rightarrow> realm_state
     \<Rightarrow> (('p perm_arg \<times> bool) list \<times> exn option) \<times> realm_state" where
  "is_permitted r ops identifiers permission_s s =
     (case requested_perms r permission_s of
        Inl e \<Rightarrow> (([], Some (generator_error e)), s)
      | Inr requested \<Rightarrow>
          (case get_authorization_info r identifiers s of
             (Inl e, s1) \<Rightarrow> (([], Some (generator_error e)), s1)
           | (Inr authz_info, s1) \<Rightarrow> (is_permitted_loop ops authz_info requested, s1)))"

definition has_all_roles ::
  "'p realm \<Rightarrow> ident \<Rightarrow> string set \<Rightarrow> realm_state \<Rightarrow> (exn + bool) \<times> realm_state" where
  "has_all_roles r identifiers roleid_s s =
     (case get_authorization_info r identifiers s of
        (Inl e, s1) \<Rightarrow> (Inl e, s1)
      | (Inr authz_info, s1) \<Rightarrow> (Inr (roleid_s \<subseteq> roleids authz_info), s1))"

subsection \<open>The permission rule in the words of the specification\<close>

text \<open>
  The specification's rule for a requested permission with domain \<open>d\<close>: the candidates
  are all permissions stored under the wildcard domain \<open>*\<close> plus all permissions stored
  under \<open>d\<close>, and the permission is granted when some candidate implies it.  These two
  definitions state the rule; the theorems compare them with the code above.
\<close>

definition spec_candidates :: "'p authz_info \<Rightarrow> string \<Rightarrow> 'p set" where
  "spec_candidates info d = set (get_permission info ''*'') \<union> set (get_permission info d)"

definition spec_granted :: "'p permission_ops \<Rightarrow> 'p authz_info \<Rightarrow> 'p \<Rightarrow> bool" where
  "spec_granted ops info p =
     (case domain ops p of
        Some (d # ds) \<Rightarrow> (\<exists>c\<in>spec_candidates info d. implies ops c p)
      | _ \<Rightarrow> False)"

section \<open>mgt.py: AbstractRememberMeManager and NativeSecurityManager\<close>

type_synonym bytes = string

text \<open>
  Subjects are objects that \<open>login\<close> mutates in place, so they live in a heap and are
  passed by reference (a \<open>nat\<close>); sessions are references too.  A \<open>SubjectContext\<close> is
  passed and returned by every resolution step, so it is a value.
\<close>

record subject =
  s_identifiers :: "identifier_collection option"
  s_authenticated :: bool
  s_remembered :: bool
  s_host :: "string option"
  s_session :: "nat option"
  s_session_creation_enabled :: bool

record subject_context =
  c_security_manager :: bool
  c_session :: "nat option"
  c_session_id :: "nat option"
  c_identifiers :: "identifier_collection option"
  c_authenticated :: bool
  c_remembered :: bool
  c_host :: "string option"
  c_authentication_token :: "token option"
  c_account_id :: "identifier_collection option"
  c_subject :: "nat option"
  c_session_creation_enabled :: bool

text \<open>\<open>forget_identity\<close> is called with a subject and with a subject context.\<close>

datatype who = OfSubject nat | OfContext subject_context

text \<open>
  The calls made to collaborators, in order.  \<open>Save\<close> records the state the subject had
  when it was handed to the subject store.
\<close>

datatype event =
    Authenticate "identifier_collection option" token
  | Save nat subject
  | Delete nat
  | GetSession nat
  | SessionStop nat "identifier_collection option"
  | SessionLookup nat
  | ForgetIdentity who
  | GetRememberedEncryptedIdentity subject_context
  | RememberEncryptedIdentity nat bytes

text \<open>
  The world: the trace of collaborator calls, the heap of subjects with the next free
  reference, and the state \<open>ext\<close> of the collaborators (stores, sessions, the
  remembered-identity persistence), of which nothing is assumed.
\<close>

record 'x world =
  trace :: "event list"
  heap :: "nat \<Rightarrow> subject"
  next_ref :: nat
  ext :: 'x

text \<open>
  A call to a collaborator: it is recorded, it may change the collaborators' state, and it
  returns or raises.
\<close>

definition call :: "event \<Rightarrow> ('x \<Rightarrow> (exn + 'a) \<times> 'x) \<Rightarrow> 'x world \<Rightarrow> (exn + 'a) \<times> 'x world" where
  "call ev f w = (case f (ext w) of (res, x) \<Rightarrow> (res, w\<lparr>trace := trace w @ [ev], ext := x\<rparr>))"

subsection \<open>AbstractRememberMeManager\<close>

record serialization_manager_ops =
  serialize :: "identifier_collection option \<Rightarrow> exn + bytes"
  deserialize :: "bytes \<Rightarrow> exn + identifier_collection option"

text \<open>
  The manager: its three abstract methods as implemented by a subclass, the injected
  serialization manager (\<open>None\<close> until injected), Fernet (\<open>Fernet(key).encrypt\<close> and
  \<open>Fernet(key).decrypt\<close>) and the two cipher keys.
\<close>

record 'x remember_me_manager_ops =
  forget_identity :: "who \<Rightarrow> 'x \<Rightarrow> (exn + unit) \<times> 'x"
  remember_encrypted_identity :: "nat \<Rightarrow> bytes \<Rightarrow> 'x \<Rightarrow> (exn + unit) \<times> 'x"
  get_remembered_encrypted_identity :: "subject_context \<Rightarrow> 'x \<Rightarrow> (exn + bytes option) \<times> 'x"
  serialization_manager :: "serialization_manager_ops option"
  fernet_encrypt :: "bytes \<Rightarrow> bytes \<Rightarrow> exn + bytes"
  fernet_decrypt :: "bytes \<Rightarrow> bytes \<Rightarrow> exn + bytes"
  encryption_cipher_key :: bytes
  decryption_cipher_key :: bytes

definition encrypt :: "'x remember_me_manager_ops \<Rightarrow> bytes \<Rightarrow> exn + bytes" where
  "encrypt m serialized = fernet_encrypt m (encryption_cipher_key m) serialized"

definition decrypt :: "'x remember_me_manager_ops \<Rightarrow> bytes \<Rightarrow> exn + bytes" where
  "decrypt m encrypted = fernet_decrypt m (decryption_cipher_key m) encrypted"

definition get_identity_to_remember ::
  "nat \<Rightarrow> identifier_collection option \<Rightarrow> identifier_collection option" where
  "get_identity_to_remember subject account_id = account_id"

definition convert_identifiers_to_bytes ::
  "'x remember_me_manager_ops \<Rightarrow> identifier_collection option \<Rightarrow> exn + bytes" where
  "convert_identifiers_to_bytes m identifiers =
     (case serialization_manager m of
        None \<Rightarrow> Inl AttributeError
      | Some sm \<Rightarrow>
          (case serialize sm identifiers of
             Inl e \<Rightarrow> Inl e
           | Inr serialized \<Rightarrow> encrypt m serialized))"

definition remember_identity ::
  "'x remember_me_manager_ops \<Rightarrow> nat \<Rightarrow> token \<Rightarrow> identifier_collection option \<Rightarrow> 'x world
     \<Rightarrow> (exn + unit) \<times> 'x world" where
  "remember_identity m subject authc_token account_id w =
     (let identifiers = get_identity_to_remember subject account_id
      in case convert_identifiers_to_bytes m identifiers of
           Inl e \<Rightarrow> (Inl e, w)
         | Inr encrypted \<Rightarrow>
             call (RememberEncryptedIdentity subject encrypted)
               (remember_encrypted_identity m subject encrypted) w)"

definition on_successful_login ::
  "'x remember_me_manager_ops \<Rightarrow> nat \<Rightarrow> token \<Rightarrow> identifier_collection option \<Rightarrow> 'x world
     \<Rightarrow> (exn + unit) \<times> 'x world" where
  "on_successful_login m subject authc_token account_id w =
     (case call (ForgetIdentity (OfSubject subject)) (forget_identity m (OfSubject subject)) w of
        (Inl e, w1) \<Rightarrow> (Inl e, w1)
      | (Inr u, w1) \<Rightarrow>
          (if is_remember_me authc_token
           then remember_identity m subject authc_token account_id w1
           else (Inr (), w1)))"

definition convert_bytes_to_identifiers ::
  "'x remember_me_manager_ops \<Rightarrow> bytes \<Rightarrow> subject_context
     \<Rightarrow> exn + identifier_collection option" where
  "convert_bytes_to_identifiers m encrypted subject_context =
     (case decrypt m encrypted of
        Inl e \<Rightarrow> Inl e
      | Inr decrypted \<Rightarrow>
          (case serialization_manager m of
             None \<Rightarrow> Inl AttributeError
           | Some sm \<Rightarrow> deserialize sm decrypted))"

text \<open>
  \<open>on_remembered_identifiers_failure\<close>: forget the identity, then raise the exception
  it was given.  It never returns a value.
\<close>

definition on_remembered_identifiers_failure ::
  "'x remember_me_manager_ops \<Rightarrow> exn \<Rightarrow> subject_context \<Rightarrow> 'x world
     \<Rightarrow> (exn + identifier_collection option) \<times> 'x world" where
  "on_remembered_identifiers_failure m exc subject_context w =
     (case call (ForgetIdentity (OfContext subject_context))
             (forget_identity m (OfContext subject_context)) w of
        (Inl e, w1) \<Rightarrow> (Inl e, w1)
      | (Inr u, w1) \<Rightarrow> (Inl exc, w1))"

text \<open>
  The body of the \<open>try\<close> of \<open>get_remembered_identifiers\<close>: fetch the ciphertext and, when
  it is truthy (not \<open>None\<close>, not empty), decrypt and deserialise it.
\<close>

definition fetch_remembered_identifiers ::
  "'x remember_me_manager_ops \<Rightarrow> subject_context \<Rightarrow> 'x world
     \<Rightarrow> (exn + identifier_collection option) \<times> 'x world" where
  "fetch_remembered_identifiers m subject_context w =
     (case call (GetRememberedEncryptedIdentity subject_context)
             (get_remembered_encrypted_identity m subject_context) w of
        (Inl e, w1) \<Rightarrow> (Inl e, w1)
      | (Inr None, w1) \<Rightarrow> (Inr None, w1)
      | (Inr (Some encrypted), w1) \<Rightarrow>
          (if encrypted = [] then (Inr None, w1)
           else (convert_bytes_to_identifiers m encrypted subject_context, w1)))"

definition get_remembered_identifiers ::
  "'x remember_me_manager_ops \<Rightarrow> subject_context \<Rightarrow> 'x world
     \<Rightarrow> (exn + identifier_collection option) \<times> 'x world" where
  "get_remembered_identifiers m subject_context w =
     (case fetch_remembered_identifiers m subject_context w of
        (Inl ex, w1) \<Rightarrow> on_remembered_identifiers_failure m ex subject_context w1
      | (Inr identifiers, w1) \<Rightarrow> (Inr identifiers, w1))"

definition on_failed_login ::
  "'x remember_me_manager_ops \<Rightarrow> nat \<Rightarrow> token \<Rightarrow> exn \<Rightarrow> 'x world \<Rightarrow> (exn + unit) \<times> 'x world" where
  "on_failed_login m subject authc_token ae w =
     call (ForgetIdentity (OfSubject subject)) (forget_identity m (OfSubject subject)) w"

definition on_logout ::
  "'x remember_me_manager_ops \<Rightarrow> nat \<Rightarrow> 'x world \<Rightarrow> (exn + unit) \<times> 'x world" where
  "on_logout m subject w =
     call (ForgetIdentity (OfSubject subject)) (forget_identity m (OfSubject subject)) w"

subsection \<open>NativeSecurityManager\<close>

text \<open>
  The security manager's collaborators, none of which is in the module:
  the authenticator's \<open>authenticate_account\<close>; the subject store's \<open>save\<close> and
  \<open>delete\<close>; \<open>subject.get_session(False)\<close> and \<open>session.stop\<close>; the session manager's
  \<open>get_session\<close>; the remember-me manager (\<open>None\<close> when not configured); the context
  that \<open>SubjectContext(self.yosai, self)\<close> constructs; the context's
  \<open>resolve_identifiers(session)\<close>, \<open>resolve_authenticated(session)\<close> and
  \<open>resolve_host(session)\<close>, which may read the session; and the truth value of an
  identifier collection.  The clean-up path of \<open>logout\<close> further depends on three
  operations that may raise: the property \<open>subject.identifiers\<close> as the subject's class
  computes it (from the stored state of the subject and from its session), \<open>copy.copy\<close>
  of the identifiers, and the attribute \<open>primary_identifier\<close> of a collection.
\<close>

record 'x security_manager =
  authenticator ::
    "identifier_collection option \<Rightarrow> token \<Rightarrow> 'x \<Rightarrow> (exn + identifier_collection option) \<times> 'x"
  store_save :: "nat \<Rightarrow> subject \<Rightarrow> 'x \<Rightarrow> (exn + unit) \<times> 'x"
  store_delete :: "nat \<Rightarrow> subject \<Rightarrow> 'x \<Rightarrow> (exn + unit) \<times> 'x"
  subject_get_session :: "nat \<Rightarrow> 'x \<Rightarrow> (exn + nat option) \<times> 'x"
  session_stop :: "nat \<Rightarrow> identifier_collection option \<Rightarrow> 'x \<Rightarrow> (exn + unit) \<times> 'x"
  session_manager_get_session :: "nat \<Rightarrow> 'x \<Rightarrow> (exn + nat option) \<times> 'x"
  remember_me_manager :: "'x remember_me_manager_ops option"
  new_subject_context :: subject_context
  context_resolve_identifiers ::
    "subject_context \<Rightarrow> nat option \<Rightarrow> 'x \<Rightarrow> identifier_collection option"
  context_resolve_authenticated :: "subject_context \<Rightarrow> nat option \<Rightarrow> 'x \<Rightarrow> bool"
  context_resolve_host :: "subject_context \<Rightarrow> nat option \<Rightarrow> 'x \<Rightarrow> string option"
  collection_truthy :: "identifier_collection \<Rightarrow> bool"
  subject_identifiers :: "nat \<Rightarrow> subject \<Rightarrow> 'x \<Rightarrow> exn + identifier_collection option"
  copy_copy :: "identifier_collection option \<Rightarrow> exn + identifier_collection option"
  primary_identifier :: "identifier_collection \<Rightarrow> exn + string"

text \<open>\<open>if identifiers\<close>: \<open>None\<close> is falsy, a collection has its own truth value.\<close>

definition truthy :: "'x security_manager \<Rightarrow> identifier_collection option \<Rightarrow> bool" where
  "truthy sm identifiers =
     (case identifiers of None \<Rightarrow> False | Some c \<Rightarrow> collection_truthy sm c)"

text \<open>
  Modelled from the spec: the exception classes are imported, not defined, by the module.
  In the spec's taxonomy a credentials mismatch is an \<open>AuthenticationException\<close> and
  \<open>AdditionalAuthenticationRequired\<close> is the multi-factor signal of the same family;
  \<open>except AuthenticationException\<close> catches the exception and these subclasses.
\<close>

definition is_authentication_exception :: "exn \<Rightarrow> bool" where
  "is_authentication_exception e =
     (case e of
        AuthenticationException \<Rightarrow> True
      | IncorrectCredentialsException \<Rightarrow> True
      | AdditionalAuthenticationRequired a \<Rightarrow> True
      | _ \<Rightarrow> False)"

definition save :: "'x security_manager \<Rightarrow> nat \<Rightarrow> 'x world \<Rightarrow> (exn + unit) \<times> 'x world" where
  "save sm subject w =
     call (Save subject (heap w subject)) (store_save sm subject (heap w subject)) w"

definition delete :: "'x security_manager \<Rightarrow> nat \<Rightarrow> 'x world \<Rightarrow> (exn + unit) \<times> 'x world" where
  "delete sm subject w =
     call (Delete subject) (store_delete sm subject (heap w subject)) w"

definition get_session ::
  "'x security_manager \<Rightarrow> nat \<Rightarrow> 'x world \<Rightarrow> (exn + nat option) \<times> 'x world" where
  "get_session sm session_key w =
     call (SessionLookup session_key) (session_manager_get_session sm session_key) w"

definition update_subject_identity ::
  "'x security_manager \<Rightarrow> identifier_collection option \<Rightarrow> nat \<Rightarrow> 'x world
     \<Rightarrow> (exn + nat) \<times> 'x world" where
  "update_subject_identity sm account_id subject w =
     (let w1 = w\<lparr>heap := (heap w)(subject := (heap w subject)\<lparr>s_identifiers := account_id\<rparr>)\<rparr>
      in case save sm subject w1 of
           (Inl e, w2) \<Rightarrow> (Inl e, w2)
         | (Inr u, w2) \<Rightarrow> (Inr subject, w2))"

text \<open>
  The remember-me notifications of a successful and of a failed login catch every
  exception of the manager and only log it: they return nothing and never raise, so the
  model returns the world alone.
\<close>

definition remember_me_successful_login ::
  "'x security_manager \<Rightarrow> token \<Rightarrow> identifier_collection option \<Rightarrow> nat \<Rightarrow> 'x world
     \<Rightarrow> 'x world" where
  "remember_me_successful_login sm authc_token account_id subject w =
     (case remember_me_manager sm of
        None \<Rightarrow> w
      | Some rmm \<Rightarrow> snd (on_successful_login rmm subject authc_token account_id w))"

definition remember_me_failed_login ::
  "'x security_manager \<Rightarrow> token \<Rightarrow> exn \<Rightarrow> nat \<Rightarrow> 'x world \<Rightarrow> 'x world" where
  "remember_me_failed_login sm authc_token authc_exc subject w =
     (case remember_me_manager sm of
        None \<Rightarrow> w
      | Some rmm \<Rightarrow> snd (on_failed_login rmm subject authc_token authc_exc w))"

text \<open>
  \<open>remember_me_logout\<close> catches every exception of the manager as well, but its handler
  formats the warning from \<open>subject.identifiers\<close>: when reading that property raises,
  the exception leaves the handler and the method.
\<close>

definition remember_me_logout ::
  "'x security_manager \<Rightarrow> nat \<Rightarrow> 'x world \<Rightarrow> (exn + unit) \<times> 'x world" where
  "remember_me_logout sm subject w =
     (case remember_me_manager sm of
        None \<Rightarrow> (Inr (), w)
      | Some rmm \<Rightarrow>
          (case on_logout rmm subject w of
             (Inr u, w1) \<Rightarrow> (Inr (), w1)
           | (Inl ex, w1) \<Rightarrow>
               (case subject_identifiers sm subject (heap w1 subject) (ext w1) of
                  Inl e \<Rightarrow> (Inl e, w1)
                | Inr identifiers \<Rightarrow> (Inr (), w1))))"

definition sm_on_successful_login ::
  "'x security_manager \<Rightarrow> token \<Rightarrow> identifier_collection option \<Rightarrow> nat \<Rightarrow> 'x world
     \<Rightarrow> 'x world" where
  "sm_on_successful_login sm authc_token account_id subject w =
     remember_me_successful_login sm authc_token account_id subject w"

definition sm_on_failed_login ::
  "'x security_manager \<Rightarrow> token \<Rightarrow> exn \<Rightarrow> nat \<Rightarrow> 'x world \<Rightarrow> 'x world" where
  "sm_on_failed_login sm authc_token authc_exc subject w =
     remember_me_failed_login sm authc_token authc_exc subject w"

definition before_logout ::
  "'x security_manager \<Rightarrow> nat \<Rightarrow> 'x world \<Rightarrow> (exn + unit) \<times> 'x world" where
  "before_logout sm subject w = remember_me_logout sm subject w"

text \<open>
  \<open>get_remembered_identity\<close>: every exception of the remember-me manager is caught and
  logged as a warning, and the method then returns \<open>None\<close>.  No branch raises.
\<close>

definition get_remembered_identity ::
  "'x security_manager \<Rightarrow> subject_context \<Rightarrow> 'x world
     \<Rightarrow> (exn + identifier_collection option) \<times> 'x world" where
  "get_remembered_identity sm subject_context w =
     (case remember_me_manager sm of
        None \<Rightarrow> (Inr None, w)
      | Some rmm \<Rightarrow>
          (case get_remembered_identifiers rmm subject_context w of
             (Inl ex, w1) \<Rightarrow> (Inr None, w1)
           | (Inr identifiers, w1) \<Rightarrow> (Inr identifiers, w1)))"

text \<open>
  \<open>resolve_identifiers\<close>: when the context resolves no identifiers the remembered
  identity is looked up; a truthy one is stored in the context, which is then marked as
  remembered.
\<close>

definition resolve_identifiers ::
  "'x security_manager \<Rightarrow> subject_context \<Rightarrow> 'x world \<Rightarrow> (exn + subject_context) \<times> 'x world" where
  "resolve_identifiers sm subject_context w =
     (let session = c_session subject_context;
          identifiers = context_resolve_identifiers sm subject_context session (ext w)
      in if \<not> truthy sm identifiers
         then (case get_remembered_identity sm subject_context w of
                 (Inl e, w1) \<Rightarrow> (Inl e, w1)
               | (Inr remembered, w1) \<Rightarrow>
                   (if truthy sm remembered
                    then (Inr (subject_context\<lparr>c_identifiers := remembered,
                                               c_remembered := True\<rparr>), w1)
                    else (Inr subject_context, w1)))
         else (Inr subject_context, w))"

text \<open>
  Modelled from the spec: \<open>SubjectContext.resolve_security_manager\<close> and
  \<open>SubjectContext.resolve_session\<close>, whose class is not in the module.  The spec has
  each resolution step check whether the context's own field is already set, so both
  read the field.
\<close>

definition context_resolve_security_manager :: "subject_context \<Rightarrow> bool" where
  "context_resolve_security_manager subject_context = c_security_manager subject_context"

definition context_resolve_session :: "subject_context \<Rightarrow> nat option" where
  "context_resolve_session subject_context = c_session subject_context"

definition ensure_security_manager :: "subject_context \<Rightarrow> subject_context" where
  "ensure_security_manager subject_context =
     (if context_resolve_security_manager subject_context then subject_context
      else subject_context\<lparr>c_security_manager := True\<rparr>)"

definition get_session_key :: "subject_context \<Rightarrow> nat option" where
  "get_session_key subject_context = c_session_id subject_context"

definition resolve_context_session ::
  "'x security_manager \<Rightarrow> subject_context \<Rightarrow> 'x world \<Rightarrow> (exn + nat option) \<times> 'x world" where
  "resolve_context_session sm subject_context w =
     (case get_session_key subject_context of
        Some session_key \<Rightarrow> get_session sm session_key w
      | None \<Rightarrow> (Inr None, w))"

definition resolve_session ::
  "'x security_manager \<Rightarrow> subject_context \<Rightarrow> 'x world \<Rightarrow> (exn + subject_context) \<times> 'x world" where
  "resolve_session sm subject_context w =
     (if context_resolve_session subject_context \<noteq> None then (Inr subject_context, w)
      else (case resolve_context_session sm subject_context w of
              (Inl e, w1) \<Rightarrow>
                (if e = InvalidSessionException then (Inr subject_context, w1) else (Inl e, w1))
            | (Inr session, w1) \<Rightarrow> (Inr (subject_context\<lparr>c_session := session\<rparr>), w1)))"

text \<open>
  \<open>do_create_subject\<close> constructs a new \<open>DelegatingSubject\<close>: a fresh heap cell.
\<close>

definition do_create_subject ::
  "'x security_manager \<Rightarrow> subject_context \<Rightarrow> 'x world \<Rightarrow> nat \<times> 'x world" where
  "do_create_subject sm subject_context w =
     (let session = context_resolve_session subject_context;
          new_subject =
            \<lparr>s_identifiers = context_resolve_identifiers sm subject_context session (ext w),
             s_authenticated = context_resolve_authenticated sm subject_context session (ext w),
             s_remembered = c_remembered subject_context,
             s_host = context_resolve_host sm subject_context session (ext w),
             s_session = session,
             s_session_creation_enabled = c_session_creation_enabled subject_context\<rparr>
      in (next_ref w,
          w\<lparr>heap := (heap w)(next_ref w := new_subject), next_ref := Suc (next_ref w)\<rparr>))"

definition create_subject_context :: "'x security_manager \<Rightarrow> nat option \<Rightarrow> subject_context" where
  "create_subject_context sm existing_subject = new_subject_context sm"

definition create_subject ::
  "'x security_manager \<Rightarrow> token option \<Rightarrow> identifier_collection option \<Rightarrow> nat option
     \<Rightarrow> subject_context option \<Rightarrow> 'x world \<Rightarrow> (exn + nat) \<times> 'x world" where
  "create_subject sm authc_token account_id existing_subject subject_context w =
     (let context0 =
            (case subject_context of
               None \<Rightarrow>
                 (let context = (create_subject_context sm existing_subject)
                        \<lparr>c_authenticated := True,
                         c_authentication_token := authc_token,
                         c_account_id := account_id\<rparr>
                  in case existing_subject of
                       Some s \<Rightarrow> context\<lparr>c_subject := Some s\<rparr>
                     | None \<Rightarrow> context)
             | Some given \<Rightarrow> given);
          context1 = ensure_security_manager context0
      in case resolve_session sm context1 w of
           (Inl e, w1) \<Rightarrow> (Inl e, w1)
         | (Inr context2, w1) \<Rightarrow>
             (case resolve_identifiers sm context2 w1 of
                (Inl e, w2) \<Rightarrow> (Inl e, w2)
              | (Inr context3, w2) \<Rightarrow>
                  (case do_create_subject sm context3 w2 of
                     (subject, w3) \<Rightarrow>
                       (case save sm subject w3 of
                          (Inl e, w4) \<Rightarrow> (Inl e, w4)
                        | (Inr u, w4) \<Rightarrow> (Inr subject, w4)))))"

text \<open>
  \<open>login\<close>.  The multi-factor signal is handled first: the identity it carries is written
  to the subject, the subject is saved, and a new \<open>AdditionalAuthenticationRequired\<close>
  is raised without arguments.  Any other authentication exception triggers the
  failed-login notification and is raised again; other exceptions propagate untouched.
\<close>

definition login ::
  "'x security_manager \<Rightarrow> nat \<Rightarrow> token \<Rightarrow> 'x world \<Rightarrow> (exn + nat) \<times> 'x world" where
  "login sm subject authc_token w =
     (case call (Authenticate (s_identifiers (heap w subject)) authc_token)
             (authenticator sm (s_identifiers (heap w subject)) authc_token) w of
        (Inl exc, w1) \<Rightarrow>
          (case exc of
             AdditionalAuthenticationRequired exc_account_id \<Rightarrow>
               (case update_subject_identity sm exc_account_id subject w1 of
                  (Inl e, w2) \<Rightarrow> (Inl e, w2)
                | (Inr s, w2) \<Rightarrow> (Inl (AdditionalAuthenticationRequired None), w2))
           | _ \<Rightarrow>
               (if is_authentication_exception exc
                then (Inl exc, sm_on_failed_login sm authc_token exc subject w1)
                else (Inl exc, w1)))
      | (Inr account_id, w1) \<Rightarrow>
          (case create_subject sm (Some authc_token) account_id (Some subject) None w1 of
             (Inl e, w2) \<Rightarrow> (Inl e, w2)
           | (Inr logged_in, w2) \<Rightarrow>
               (Inr logged_in, sm_on_successful_login sm authc_token account_id logged_in w2)))"

text \<open>
  \<open>stop_session\<close> asks the subject for its session without creating one and, when there
  is one, reads \<open>subject.identifiers\<close> and stops the session.
\<close>

definition stop_session :: "'x security_manager \<Rightarrow> nat \<Rightarrow> 'x world \<Rightarrow> (exn + unit) \<times> 'x world" where
  "stop_session sm subject w =
     (case call (GetSession subject) (subject_get_session sm subject) w of
        (Inl e, w1) \<Rightarrow> (Inl e, w1)
      | (Inr None, w1) \<Rightarrow> (Inr (), w1)
      | (Inr (Some session), w1) \<Rightarrow>
          (case subject_identifiers sm subject (heap w1 subject) (ext w1) of
             Inl e \<Rightarrow> (Inl e, w1)
           | Inr identifiers \<Rightarrow>
               call (SessionStop session identifiers) (session_stop sm session identifiers) w1))"

text \<open>
  The statements of \<open>logout\<close> between the notification and the clean-up: the subject's
  identifiers are read and copied and, when the copy is truthy, a debug message is
  formatted from its \<open>primary_identifier\<close>.  They stand outside every \<open>try\<close>: an
  exception of any of the three leaves \<open>logout\<close>.
\<close>

definition logout_identifiers :: "'x security_manager \<Rightarrow> nat \<Rightarrow> 'x world \<Rightarrow> exn + unit" where
  "logout_identifiers sm subject w =
     (case subject_identifiers sm subject (heap w subject) (ext w) of
        Inl e \<Rightarrow> Inl e
      | Inr stored \<Rightarrow>
          (case copy_copy sm stored of
             Inl e \<Rightarrow> Inl e
           | Inr None \<Rightarrow> Inr ()
           | Inr (Some identifiers) \<Rightarrow>
               (if collection_truthy sm identifiers
                then (case primary_identifier sm identifiers of
                        Inl e \<Rightarrow> Inl e
                      | Inr primary \<Rightarrow> Inr ())
                else Inr ())))"

text \<open>
  \<open>logout\<close>: \<open>None\<close> raises \<open>ValueError\<close> at once.  Otherwise the remember-me
  notification runs and the identifiers are read for the debug message; an exception of
  either leaves \<open>logout\<close> before any clean-up.  Then \<open>delete\<close> runs inside a \<open>try\<close>
  whose \<open>except Exception\<close> only logs, and, in the \<open>finally\<close> clause, \<open>stop_session\<close>
  inside a \<open>try\<close> of the same kind.
\<close>

definition logout :: "'x security_manager \<Rightarrow> nat option \<Rightarrow> 'x world \<Rightarrow> (exn + unit) \<times> 'x world" where
  "logout sm subject w =
     (case subject of
        None \<Rightarrow> (Inl ValueError, w)
      | Some s \<Rightarrow>
          (case before_logout sm s w of
             (Inl e, w1) \<Rightarrow> (Inl e, w1)
           | (Inr u, w1) \<Rightarrow>
               (case logout_identifiers sm s w1 of
                  Inl e \<Rightarrow> (Inl e, w1)
                | Inr u \<Rightarrow>
                    (let w2 = snd (delete sm s w1);
                         w3 = snd (stop_session sm s w2)
                     in (Inr (), w3)))))"

section \<open>Concrete collaborators for the examples\<close>

text \<open>
  A realm over an account store with the one account of \<open>alice\<close>, a matcher that
  compares passwords, and a cache handler with one cache, keyed by the identifier.
  \<open>uncached_realm\<close> is the same realm without an authorization cache handler,
  \<open>storeless_realm\<close> the same realm without an account store.
\<close>

definition alice_token :: token where
  "alice_token = \<lparr>tok_identifier = ''alice'', tok_credentials = ''secret'', is_remember_me = False\<rparr>"

definition remember_token :: token where
  "remember_token = alice_token\<lparr>is_remember_me := True\<rparr>"

definition alice_account :: account where
  "alice_account = \<lparr>acct_identifier = ''alice'', acct_credentials = ''secret''\<rparr>"

definition example_key :: "lookup \<Rightarrow> string option" where
  "example_key l =
     (case l of
        ByToken t \<Rightarrow> Some (tok_identifier t)
      | ByTokenAccount t a \<Rightarrow> Some (tok_identifier t)
      | ByAccountId i \<Rightarrow> (case i of IdentStr str \<Rightarrow> Some str | IdentCollection c \<Rightarrow> None))"

definition example_handler :: cache_handler where
  "example_handler = \<lparr>get_cache = (\<lambda>l. Some 0), get_cache_key = example_key\<rparr>"

definition password_matcher :: "token \<Rightarrow> account option \<Rightarrow> bool" where
  "password_matcher t a =
     (case a of None \<Rightarrow> False | Some acct \<Rightarrow> tok_credentials t = acct_credentials acct)"

text \<open>
  Example permissions are pairs of a domain and an action; \<open>*\<close> is the wildcard in
  either place.  Alice has the roles \<open>admin\<close> and \<open>editor\<close>; under the domain \<open>files\<close>
  she has the permission to write files, under the domain \<open>network\<close> a permission to read
  in any domain, and nothing under \<open>*\<close>.  Her authorization info is in the authorization
  cache and in the account store, under the string \<open>alice\<close> and under the collection
  holding it.
\<close>

definition example_ops :: "(string \<times> string) permission_ops" where
  "example_ops =
     \<lparr>domain = (\<lambda>p. Some [fst p]),
      implies = (\<lambda>a p. (fst a = ''*'' \<or> fst a = fst p) \<and> (snd a = ''*'' \<or> snd a = snd p))\<rparr>"

definition alice_info :: "(string \<times> string) authz_info" where
  "alice_info =
     \<lparr>roleids = {''admin'', ''editor''},
      permissions_by_domain =
        (\<lambda>d. if d = ''files'' then [(''files'', ''write'')]
             else if d = ''network'' then [(''*'', ''read'')]
             else [])\<rparr>"

definition example_store :: "(string \<times> string) account_store_ops" where
  "example_store =
     \<lparr>get_account = (\<lambda>t. if tok_identifier t = ''alice'' then Inr (Some alice_account)
                          else Inr None),
      get_authz_info = (\<lambda>i. if i = IdentStr ''alice'' \<or> i = IdentCollection [''alice'']
                             then Inr alice_info
                             else Inl (OtherException ''no such account''))\<rparr>"

definition example_authz_cache :: "ident \<Rightarrow> exn + (string \<times> string) authz_info option" where
  "example_authz_cache i =
     (if i = IdentStr ''alice'' \<or> i = IdentCollection [''alice''] then Inr (Some alice_info)
      else Inr None)"

definition example_realm :: "(string \<times> string) realm" where
  "example_realm =
     \<lparr>account_store = Some example_store,
      credentials_matcher = password_matcher,
      credentials_cache_handler = Some example_handler,
      authorization_cache_handler = Some example_authz_cache,
      permission_resolver = None\<rparr>"

definition uncached_realm :: "(string \<times> string) realm" where
  "uncached_realm = example_realm\<lparr>authorization_cache_handler := None\<rparr>"

definition storeless_realm :: "(string \<times> string) realm" where
  "storeless_realm = example_realm\<lparr>account_store := None\<rparr>"

definition empty_state :: realm_state where
  "empty_state = \<lparr>store_calls = [], caches = (\<lambda>c. Map.empty)\<rparr>"

definition cached_state :: realm_state where
  "cached_state = \<lparr>store_calls = [], caches = (\<lambda>c. [''alice'' \<mapsto> alice_account])\<rparr>"

text \<open>
  A remember-me manager whose persistence is one optional ciphertext (the collaborators'
  state): forgetting clears it, remembering stores it.  \<open>broken_rmm\<close> is the same
  manager over a persistence whose fetch raises, \<open>uninjected_rmm\<close> the same manager
  as its constructor leaves it, with no serialization manager injected.
\<close>

definition example_serialization :: serialization_manager_ops where
  "example_serialization =
     \<lparr>serialize = (\<lambda>ids. case ids of None \<Rightarrow> Inl TypeError | Some c \<Rightarrow> Inr (concat c)),
      deserialize = (\<lambda>b. Inr (Some [b]))\<rparr>"

definition example_rmm :: "bytes option remember_me_manager_ops" where
  "example_rmm =
     \<lparr>forget_identity = (\<lambda>who x. (Inr (), None)),
      remember_encrypted_identity = (\<lambda>subject encrypted x. (Inr (), Some encrypted)),
      get_remembered_encrypted_identity = (\<lambda>context x. (Inr x, x)),
      serialization_manager = Some example_serialization,
      fernet_encrypt = (\<lambda>key serialized. Inr (key @ serialized)),
      fernet_decrypt = (\<lambda>key encrypted. Inr (drop (length key) encrypted)),
      encryption_cipher_key = ''k'',
      decryption_cipher_key = ''k''\<rparr>"

definition uninjected_rmm :: "bytes option remember_me_manager_ops" where
  "uninjected_rmm = example_rmm\<lparr>serialization_manager := None\<rparr>"

definition broken_rmm :: "bytes option remember_me_manager_ops" where
  "broken_rmm =
     example_rmm\<lparr>get_remembered_encrypted_identity :=
       (\<lambda>context x. (Inl (OtherException ''store unavailable''), x))\<rparr>"

definition empty_context :: subject_context where
  "empty_context =
     \<lparr>c_security_manager = True, c_session = None, c_session_id = None,
      c_identifiers = None, c_authenticated = False, c_remembered = False, c_host = None,
      c_authentication_token = None, c_account_id = None, c_subject = None,
      c_session_creation_enabled = True\<rparr>"

definition anonymous :: subject where
  "anonymous =
     \<lparr>s_identifiers = None, s_authenticated = False, s_remembered = False, s_host = None,
      s_session = None, s_session_creation_enabled = True\<rparr>"

text \<open>
  A security manager whose authenticator asks for a second factor for every token, and
  one whose subject store and sessions fail on every call.
\<close>

definition mfa_manager :: "bytes option security_manager" where
  "mfa_manager =
     \<lparr>authenticator = (\<lambda>ids t x. (Inl (AdditionalAuthenticationRequired (Some [''alice''])), x)),
      store_save = (\<lambda>s snapshot x. (Inr (), x)),
      store_delete = (\<lambda>s snapshot x. (Inr (), x)),
      subject_get_session = (\<lambda>s x. (Inr None, x)),
      session_stop = (\<lambda>session ids x. (Inr (), x)),
      session_manager_get_session = (\<lambda>k x. (Inr None, x)),
      remember_me_manager = Some broken_rmm,
      new_subject_context = empty_context,
      context_resolve_identifiers = (\<lambda>c session x. c_identifiers c),
      context_resolve_authenticated = (\<lambda>c session x. c_authenticated c),
      context_resolve_host = (\<lambda>c session x. c_host c),
      collection_truthy = (\<lambda>c. c \<noteq> []),
      subject_identifiers = (\<lambda>s stored x. Inr (s_identifiers stored)),
      copy_copy = (\<lambda>ids. Inr ids),
      primary_identifier = (\<lambda>c. case c of [] \<Rightarrow> Inl IndexError | i # rest \<Rightarrow> Inr i)\<rparr>"

definition failing_manager :: "bytes option security_manager" where
  "failing_manager =
     mfa_manager\<lparr>store_delete := (\<lambda>s snapshot x. (Inl (OtherException ''store unavailable''), x)),
                 subject_get_session := (\<lambda>s x. (Inr (Some 7), x)),
                 session_stop := (\<lambda>session ids x. (Inl InvalidSessionException, x)),
                 remember_me_manager := Some example_rmm\<rparr>"

definition initial_world :: "bytes option world" where
  "initial_world = \<lparr>trace = [], heap = (\<lambda>r. anonymous), next_ref = 1, ext = Some ''stale''\<rparr>"

section \<open>The realm: credentials\<close>

lemma authenticate_account_never_returns:
  "fst (authenticate_account r authc_token s) \<noteq> Inr acct"
  by (simp add: authenticate_account_def clear_cached_credentials_def
      split: prod.splits sum.splits)

text \<open>
  Claim C1 says that \<open>authenticate_account\<close>, for a token whose credentials match, removes
  the cached credentials of the token's principal and then returns the account.  The code
  does neither: \<open>clear_cached_credentials\<close> raises \<open>NameError\<close> on the unbound name
  \<open>cch\<close>.  For alice's token, whose password matches the stored account, on an empty
  cache: the account is fetched and cached, the credentials match,
  \<open>authenticate_account\<close> raises \<open>NameError\<close>, and the cache still holds the account.
\<close>

theorem authenticate_account_keeps_cached_credentials:
  "fst (authenticate_account example_realm alice_token empty_state) = Inl (NameError ''cch'')
   \<and> get_cached_credentials example_handler alice_token
        (snd (authenticate_account example_realm alice_token empty_state))
      = Inr (Some alice_account)
   \<and> credentials_matcher example_realm alice_token (Some alice_account)"
  by (simp add: authenticate_account_def clear_cached_credentials_def get_credentials_def
      assert_credentials_match_def get_cached_credentials_def cache_credentials_def
      cache_get_def key_falsy_def example_realm_def example_handler_def example_store_def
      example_key_def password_matcher_def alice_token_def alice_account_def empty_state_def)

text \<open>
  Claim C8: with a credentials cache handler configured, \<open>get_credentials\<close> returns an
  account the cache holds for the token without calling the account store (the state,
  and so the list of store calls, is unchanged).  On a cache miss where the store has an
  account for the token (and the handler's resolvers give a cache and a key for the token
  and the account), \<open>get_credentials\<close> calls the store once, writes the account to the
  cache and returns it; a repeated \<open>get_credentials\<close> in the resulting state returns
  the account and leaves the state, and so the store calls, unchanged.  For the repeated
  call the cache entry of the token is the entry just written: the resolvers give the
  same cache and key for the token alone as for the token with the account.
\<close>

theorem get_credentials_cache:
  assumes "credentials_cache_handler r = Some cch"
  shows "(get_cached_credentials cch T s = Inr (Some a)
            \<longrightarrow> get_credentials r T s = (Inr (Some a), s))
       \<and> (get_cached_credentials cch T s = Inr None
            \<and> account_store r = Some store \<and> get_account store T = Inr (Some a)
            \<and> get_cache cch (ByTokenAccount T a) = Some c
            \<and> get_cache_key cch (ByTokenAccount T a) = Some k \<and> k \<noteq> []
            \<longrightarrow> get_credentials r T s
                  = (Inr (Some a),
                     s\<lparr>store_calls := store_calls s @ [GetAccount T],
                       caches := (caches s)(c := (caches s c)(k \<mapsto> a))\<rparr>)
                \<and> (get_cache cch (ByToken T) = Some c \<and> get_cache_key cch (ByToken T) = Some k
                     \<longrightarrow> get_credentials r T
                           (s\<lparr>store_calls := store_calls s @ [GetAccount T],
                              caches := (caches s)(c := (caches s c)(k \<mapsto> a))\<rparr>)
                         = (Inr (Some a),
                            s\<lparr>store_calls := store_calls s @ [GetAccount T],
                              caches := (caches s)(c := (caches s c)(k \<mapsto> a))\<rparr>)))"
  using assms
  by (auto simp add: get_credentials_def get_cached_credentials_def cache_credentials_def
      cache_get_def key_falsy_def Let_def
      split: option.splits sum.splits prod.splits if_splits)

theorem get_credentials_cache_witness:
  "credentials_cache_handler example_realm = Some example_handler
   \<and> get_cached_credentials example_handler alice_token cached_state = Inr (Some alice_account)
   \<and> get_credentials example_realm alice_token cached_state
       = (Inr (Some alice_account), cached_state)
   \<and> get_cached_credentials example_handler alice_token empty_state = Inr None
   \<and> fst (get_credentials example_realm alice_token empty_state) = Inr (Some alice_account)
   \<and> store_calls (snd (get_credentials example_realm alice_token empty_state))
       = [GetAccount alice_token]
   \<and> caches (snd (get_credentials example_realm alice_token empty_state)) 0 ''alice''
       = Some alice_account
   \<and> get_credentials example_realm alice_token
        (snd (get_credentials example_realm alice_token empty_state))
       = (Inr (Some alice_account), snd (get_credentials example_realm alice_token empty_state))"
proof -
  have h: "credentials_cache_handler example_realm = Some example_handler"
    by (simp add: example_realm_def)
  have hit: "get_cached_credentials example_handler alice_token cached_state
               = Inr (Some alice_account)"
    by (simp add: get_cached_credentials_def cache_get_def example_handler_def example_key_def
        cached_state_def alice_token_def)
  have miss: "get_cached_credentials example_handler alice_token empty_state = Inr None"
    by (simp add: get_cached_credentials_def cache_get_def example_handler_def example_key_def
        empty_state_def alice_token_def)
  have store: "account_store example_realm = Some example_store
               \<and> get_account example_store alice_token = Inr (Some alice_account)"
    by (simp add: example_realm_def example_store_def alice_token_def)
  have loc: "get_cache example_handler (ByTokenAccount alice_token alice_account) = Some 0
             \<and> get_cache_key example_handler (ByTokenAccount alice_token alice_account)
                 = Some ''alice''
             \<and> get_cache example_handler (ByToken alice_token) = Some 0
             \<and> get_cache_key example_handler (ByToken alice_token) = Some ''alice''"
    by (simp add: example_handler_def example_key_def alice_token_def)
  have e: "store_calls empty_state = []"
    by (simp add: empty_state_def)
  show ?thesis
    using get_credentials_cache [OF h, where T = alice_token and s = cached_state
        and a = alice_account]
      get_credentials_cache [OF h, where T = alice_token and s = empty_state
        and a = alice_account and store = example_store and c = 0 and k = "''alice''"]
      h hit miss store loc e
    by simp
qed

text \<open>
  Claim C9 as stated (for every token: no account store gives \<open>RealmMisconfigured\<close>, and
  a store without a matching record gives no account) fails when the cache holds an account
  for the token: the store is then never consulted.  Here no account store is configured
  and \<open>get_credentials\<close> returns the cached account.
\<close>

theorem get_credentials_without_store_counterexample:
  "account_store storeless_realm = None
   \<and> get_credentials storeless_realm alice_token cached_state
       = (Inr (Some alice_account), cached_state)"
  by (simp add: get_credentials_def get_cached_credentials_def cache_get_def
      storeless_realm_def example_realm_def example_handler_def example_key_def
      cached_state_def alice_token_def)

text \<open>
  Claim C9, amended: when the cache yields no account (no cache handler is configured,
  or the handler finds no cached account for the token), \<open>get_credentials\<close> raises
  \<open>RealmMisconfiguredException\<close> if no account store is configured, and returns no
  account, without an error, if the configured store has no record matching the token.
\<close>

theorem get_credentials_on_miss:
  assumes "credentials_cache_handler r = None
           \<or> (\<exists>cch. credentials_cache_handler r = Some cch
                    \<and> get_cached_credentials cch T s = Inr None)"
  shows "(account_store r = None
            \<longrightarrow> get_credentials r T s = (Inl RealmMisconfiguredException, s))
       \<and> (\<forall>store. account_store r = Some store \<and> get_account store T = Inr None
            \<longrightarrow> get_credentials r T s
                 = (Inr None, s\<lparr>store_calls := store_calls s @ [GetAccount T]\<rparr>))"
  using assms
  by (auto simp add: get_credentials_def Let_def split: option.splits sum.splits)

theorem get_credentials_on_miss_witness:
  "get_cached_credentials example_handler alice_token empty_state = Inr None
   \<and> account_store storeless_realm = None
   \<and> get_credentials storeless_realm alice_token empty_state
       = (Inl RealmMisconfiguredException, empty_state)
   \<and> account_store example_realm = Some example_store
   \<and> get_account example_store (alice_token\<lparr>tok_identifier := ''bob''\<rparr>) = Inr None
   \<and> fst (get_credentials example_realm (alice_token\<lparr>tok_identifier := ''bob''\<rparr>) empty_state)
       = Inr None"
proof -
  let ?bob = "alice_token\<lparr>tok_identifier := ''bob''\<rparr>"
  have m1: "credentials_cache_handler storeless_realm = None
            \<or> (\<exists>cch. credentials_cache_handler storeless_realm = Some cch
                     \<and> get_cached_credentials cch alice_token empty_state = Inr None)"
    by (simp add: storeless_realm_def example_realm_def get_cached_credentials_def
        cache_get_def example_handler_def example_key_def empty_state_def)
  have m2: "credentials_cache_handler example_realm = None
            \<or> (\<exists>cch. credentials_cache_handler example_realm = Some cch
                     \<and> get_cached_credentials cch ?bob empty_state = Inr None)"
    by (simp add: example_realm_def get_cached_credentials_def
        cache_get_def example_handler_def example_key_def empty_state_def)
  have miss: "get_cached_credentials example_handler alice_token empty_state = Inr None"
    by (simp add: get_cached_credentials_def cache_get_def example_handler_def example_key_def
        empty_state_def alice_token_def)
  have n: "account_store storeless_realm = None"
    by (simp add: storeless_realm_def example_realm_def)
  have st: "account_store example_realm = Some example_store"
    by (simp add: example_realm_def)
  have nobody: "get_account example_store ?bob = Inr None"
    by (simp add: example_store_def)
  show ?thesis
    using get_credentials_on_miss [OF m1] get_credentials_on_miss [OF m2] miss n st nobody
    by simp
qed

section \<open>The realm: permissions and roles\<close>

lemma authorized_scan_found:
  "fst (authorized_scan ops p cands) = (\<exists>c\<in>set cands. implies ops c p)"
  by (induction cands) (auto split: prod.splits)

lemma authorized_scan_tested:
  "snd (authorized_scan ops p cands)
     = takeWhile (\<lambda>c. \<not> implies ops c p) cands
       @ take 1 (dropWhile (\<lambda>c. \<not> implies ops c p) cands)"
  by (induction cands) (auto split: prod.splits)

lemma get_authzd_permissions_candidates:
  assumes "domain ops p = Some (d # ds)"
  shows "get_authzd_permissions ops (Some info) (PermObj p)
           = Inr (remdups (get_permission info ''*'' @ get_permission info d))"
  using assms by (simp add: get_authzd_permissions_def)

text \<open>
  In this module the authorization info of identifiers is resolved only from the
  authorization cache: every path through the account store ends in the \<open>NameError\<close> on
  \<open>IndexedAuthorizationInfo\<close>.
\<close>

lemma get_authorization_info_returns:
  "get_authorization_info r ids s = (Inr info, s1)
     \<longleftrightarrow> (\<exists>ach i. authorization_cache_handler r = Some ach \<and> ids = IdentStr i
                  \<and> ach ids = Inr (Some info) \<and> s1 = s)"
  by (auto simp add: get_authorization_info_def fetch_authorization_info_def Let_def
      split: option.splits sum.splits ident.splits)

lemma example_authorization_info:
  "get_authorization_info example_realm (IdentStr ''alice'') empty_state
     = (Inr alice_info, empty_state)"
  by (simp add: get_authorization_info_def example_realm_def example_authz_cache_def)

lemma is_permitted_loop_objects:
  assumes "\<forall>p\<in>set ps. \<exists>d ds. domain ops p = Some (d # ds)"
  shows "is_permitted_loop ops info (map PermObj ps)
           = (map (\<lambda>p. (PermObj p, spec_granted ops info p)) ps, None)"
  using assms
proof (induction ps)
  case Nil
  show ?case by simp
next
  case (Cons p ps)
  then obtain d ds where d: "domain ops p = Some (d # ds)"
    by auto
  have g: "fst (authorized_scan ops p (remdups (get_permission info ''*'' @ get_permission info d)))
             = spec_granted ops info p"
    using d by (simp add: authorized_scan_found spec_granted_def spec_candidates_def)
  from Cons have "is_permitted_loop ops info (map PermObj ps)
                    = (map (\<lambda>p. (PermObj p, spec_granted ops info p)) ps, None)"
    by simp
  then show ?case
    using get_authzd_permissions_candidates [OF d, of info] g by simp
qed

text \<open>
  Claim C6: with the authorization info of the identifiers resolved, \<open>is_permitted\<close>
  yields every requested permission \<open>p\<close> together with the flag of the specification's
  rule: for \<open>d\<close> the domain of \<open>p\<close>, the candidates \<open>get_authzd_permissions\<close> computes are
  exactly the permissions stored under \<open>*\<close> together with those stored under \<open>d\<close>, the
  flag is true if and only if some candidate implies \<open>p\<close>, and the scan tests the
  candidates up to and including the first that implies \<open>p\<close> and no further.  A
  permission stored only under another domain is not a candidate, so it cannot make
  \<open>p\<close> granted.
\<close>

theorem is_permitted_domain_candidates:
  assumes info: "get_authorization_info r ids s = (Inr info, s1)"
      and doms: "\<forall>p\<in>set ps. \<exists>d ds. domain ops p = Some (d # ds)"
      and ne: "ps \<noteq> []"
  shows "is_permitted r ops ids (PyList (map PermObj ps)) s
           = ((map (\<lambda>p. (PermObj p, spec_granted ops info p)) ps, None), s1)
       \<and> (\<forall>p\<in>set ps. \<forall>d ds. domain ops p = Some (d # ds) \<longrightarrow>
            (\<exists>cands. get_authzd_permissions ops (Some info) (PermObj p) = Inr cands
               \<and> set cands = spec_candidates info d
               \<and> fst (authorized_scan ops p cands) = (\<exists>c\<in>spec_candidates info d. implies ops c p)
               \<and> snd (authorized_scan ops p cands)
                   = takeWhile (\<lambda>c. \<not> implies ops c p) cands
                     @ take 1 (dropWhile (\<lambda>c. \<not> implies ops c p) cands)))"
proof -
  obtain q qs where ps: "ps = q # qs"
    using ne by (cases ps) auto
  have req: "requested_perms r (PyList (map PermObj ps)) = Inr (map PermObj ps)"
    by (simp add: ps requested_perms_def is_str_def)
  have top: "is_permitted r ops ids (PyList (map PermObj ps)) s
               = ((map (\<lambda>p. (PermObj p, spec_granted ops info p)) ps, None), s1)"
    using is_permitted_loop_objects [OF doms, of info]
    by (simp add: is_permitted_def req info)
  have each: "\<exists>cands. get_authzd_permissions ops (Some info) (PermObj p) = Inr cands
               \<and> set cands = spec_candidates info d
               \<and> fst (authorized_scan ops p cands) = (\<exists>c\<in>spec_candidates info d. implies ops c p)
               \<and> snd (authorized_scan ops p cands)
                   = takeWhile (\<lambda>c. \<not> implies ops c p) cands
                     @ take 1 (dropWhile (\<lambda>c. \<not> implies ops c p) cands)"
    if "domain ops p = Some (d # ds)" for p d ds
  proof -
    let ?cands = "remdups (get_permission info ''*'' @ get_permission info d)"
    have c: "get_authzd_permissions ops (Some info) (PermObj p) = Inr ?cands"
      using that by (rule get_authzd_permissions_candidates)
    have s: "set ?cands = spec_candidates info d"
      by (simp add: spec_candidates_def)
    have f: "fst (authorized_scan ops p ?cands) = (\<exists>c\<in>spec_candidates info d. implies ops c p)"
      by (simp only: authorized_scan_found s)
    show ?thesis
      using c s f authorized_scan_tested [of ops p ?cands] by blast
  qed
  from top each show ?thesis by blast
qed

text \<open>
  Alice asks to read and to write files.  Writing is granted by the permission stored
  under \<open>files\<close>.  Reading is not: the only permission that implies it is stored under
  \<open>network\<close>, which is not a candidate.
\<close>

theorem is_permitted_domain_candidates_witness:
  "get_authorization_info example_realm (IdentStr ''alice'') empty_state
     = (Inr alice_info, empty_state)
   \<and> domain example_ops (''files'', ''read'') = Some [''files'']
   \<and> domain example_ops (''files'', ''write'') = Some [''files'']
   \<and> implies example_ops (''*'', ''read'') (''files'', ''read'')
   \<and> (''*'', ''read'') \<in> set (get_permission alice_info ''network'')
   \<and> spec_candidates alice_info ''files'' = {(''files'', ''write'')}
   \<and> is_permitted example_realm example_ops (IdentStr ''alice'')
        (PyList [PermObj (''files'', ''read''), PermObj (''files'', ''write'')]) empty_state
       = (([(PermObj (''files'', ''read''), False), (PermObj (''files'', ''write''), True)], None),
          empty_state)"
proof -
  let ?ps = "[(''files'', ''read''), (''files'', ''write'')]"
  have d: "\<forall>p\<in>set ?ps. \<exists>d ds. domain example_ops p = Some (d # ds)"
    by (simp add: example_ops_def)
  have ne: "?ps \<noteq> []"
    by simp
  have g: "get_permission alice_info ''*'' = []
           \<and> get_permission alice_info ''files'' = [(''files'', ''write'')]
           \<and> get_permission alice_info ''network'' = [(''*'', ''read'')]"
    by (simp add: get_permission_def alice_info_def)
  have sg: "\<not> spec_granted example_ops alice_info (''files'', ''read'')
            \<and> spec_granted example_ops alice_info (''files'', ''write'')"
    using g by (simp add: spec_granted_def spec_candidates_def example_ops_def)
  have i: "implies example_ops (''*'', ''read'') (''files'', ''read'')
           \<and> domain example_ops (''files'', ''read'') = Some [''files'']
           \<and> domain example_ops (''files'', ''write'') = Some [''files'']"
    by (simp add: example_ops_def)
  have "is_permitted example_realm example_ops (IdentStr ''alice'') (PyList (map PermObj ?ps))
          empty_state
        = ((map (\<lambda>p. (PermObj p, spec_granted example_ops alice_info p)) ?ps, None), empty_state)"
    using is_permitted_domain_candidates [OF example_authorization_info d ne] by blast
  then show ?thesis
    using example_authorization_info g sg i by (simp add: spec_candidates_def)
qed

text \<open>
  Where the authorization info is resolved, \<open>has_all_roles\<close> is the subset test on its
  role ids; alice's info comes from the authorization cache, under her identifier as a
  string.  But no answer is ever given for identifiers passed as a collection object,
  nor without an authorization cache handler.
\<close>

lemma has_all_roles_on_resolved_info:
  assumes "get_authorization_info r ids s = (Inr info, s1)"
  shows "has_all_roles r ids roleid_s s = (Inr (roleid_s \<subseteq> roleids info), s1)"
  using assms by (simp add: has_all_roles_def)

lemma has_all_roles_from_cache:
  "fst (has_all_roles example_realm (IdentStr ''alice'') {''admin''} empty_state) = Inr True
   \<and> fst (has_all_roles example_realm (IdentStr ''alice'') {''admin'', ''editor''} empty_state)
       = Inr True
   \<and> fst (has_all_roles example_realm (IdentStr ''alice'') {''admin'', ''superuser''} empty_state)
       = Inr False"
  by (simp add: has_all_roles_on_resolved_info [OF example_authorization_info] alice_info_def)

lemma has_all_roles_never_answers_collection:
  "fst (has_all_roles r (IdentCollection c) roleid_s s) \<noteq> Inr b"
  by (simp add: has_all_roles_def get_authorization_info_returns split: prod.splits sum.splits)

lemma has_all_roles_never_answers_uncached:
  assumes "authorization_cache_handler r = None"
  shows "fst (has_all_roles r ids roleid_s s) \<noteq> Inr b"
  using assms
  by (simp add: has_all_roles_def get_authorization_info_returns split: prod.splits sum.splits)

text \<open>
  Claim C7 says that \<open>has_all_roles\<close>, for every identifier collection and every set of
  role ids, returns whether the role ids are a subset of those of the account.  Alice's
  account has the roles \<open>admin\<close> and \<open>editor\<close>.  Without an authorization cache handler
  the account store is asked and returns them, and \<open>has_all_roles({admin})\<close> raises
  \<open>NameError\<close> on the unbound name \<open>IndexedAuthorizationInfo\<close>.  With the handler, and
  with the info cached, the identifiers passed as a collection raise \<open>TypeError\<close> where
  the log message is concatenated.
\<close>

theorem has_all_roles_raises:
  "account_store uncached_realm = Some example_store
   \<and> get_authz_info example_store (IdentStr ''alice'') = Inr alice_info
   \<and> roleids alice_info = {''admin'', ''editor''}
   \<and> has_all_roles uncached_realm (IdentStr ''alice'') {''admin''} empty_state
       = (Inl (NameError ''IndexedAuthorizationInfo''),
          empty_state\<lparr>store_calls := [GetAuthzInfo (IdentStr ''alice'')]\<rparr>)
   \<and> example_authz_cache (IdentCollection [''alice'']) = Inr (Some alice_info)
   \<and> has_all_roles example_realm (IdentCollection [''alice'']) {''admin''} empty_state
       = (Inl TypeError, empty_state)"
  by (simp add: has_all_roles_def get_authorization_info_def fetch_authorization_info_def
      uncached_realm_def example_realm_def example_store_def example_authz_cache_def
      alice_info_def empty_state_def)

text \<open>
  Claim C10: \<open>is_permitted\<close> reads \<open>permission_s[0]\<close> before anything else.  An empty
  list raises \<open>IndexError\<close> and a collection without an index raises \<open>TypeError\<close>, in
  both cases before any pair is yielded and with the state untouched; for a non-empty
  list the form of the first element alone decides whether the whole list is resolved
  from strings or taken as it is.
\<close>

theorem is_permitted_first_element:
  "is_permitted r ops ids (PyList []) s = (([], Some IndexError), s)
   \<and> is_permitted r ops ids (PySet xs) s = (([], Some TypeError), s)
   \<and> requested_perms r (PyList (x # rest))
       = (if is_str x then resolve_permissions r (x # rest) else Inr (x # rest))"
  by (simp add: is_permitted_def requested_perms_def generator_error_def)

theorem is_permitted_first_element_witness:
  "is_permitted example_realm example_ops (IdentStr ''alice'') (PyList []) empty_state
     = (([], Some IndexError), empty_state)
   \<and> requested_perms example_realm (PyList [PermObj (''files'', ''read''), PermStr ''files:write''])
       = Inr [PermObj (''files'', ''read''), PermStr ''files:write'']
   \<and> requested_perms example_realm (PyList [PermStr ''files:write'', PermObj (''files'', ''read'')])
       = Inr []"
  using is_permitted_first_element [of example_realm example_ops "IdentStr ''alice''"
      empty_state "[]" "PermObj (''files'', ''read'')" "[PermStr ''files:write'']"]
    is_permitted_first_element [of example_realm example_ops "IdentStr ''alice''"
      empty_state "[]" "PermStr ''files:write''" "[PermObj (''files'', ''read'')]"]
  by (simp add: is_str_def resolve_permissions_def example_realm_def)

section \<open>The remember-me manager and the security manager\<close>

lemma call_trace: "trace (snd (call ev f w)) = trace w @ [ev]"
  by (simp add: call_def split: prod.splits)

lemma get_remembered_identity_never_raises:
  "fst (get_remembered_identity sm ctx w) \<noteq> Inl e"
  by (simp add: get_remembered_identity_def split: option.splits prod.splits sum.splits)

lemma resolve_identifiers_never_raises:
  "fst (resolve_identifiers sm ctx w) \<noteq> Inl e"
proof (cases "get_remembered_identity sm ctx w")
  case (Pair res w1)
  with get_remembered_identity_never_raises [of sm ctx w] obtain ids where "res = Inr ids"
    by (cases res) auto
  with Pair show ?thesis
    by (simp add: resolve_identifiers_def Let_def)
qed

text \<open>
  Claim C2 as stated has the identifier-resolution step of subject creation propagate a
  failure of the remembered-identity retrieval.  It does not: the persistence raises on
  fetch, and \<open>resolve_identifiers\<close> returns the context normally.
\<close>

theorem resolve_identifiers_swallows_counterexample:
  "fst (fetch_remembered_identifiers broken_rmm empty_context initial_world)
     = Inl (OtherException ''store unavailable'')
   \<and> remember_me_manager mfa_manager = Some broken_rmm
   \<and> fst (resolve_identifiers mfa_manager empty_context initial_world) = Inr empty_context"
  by (simp add: resolve_identifiers_def get_remembered_identity_def
      get_remembered_identifiers_def on_remembered_identifiers_failure_def
      fetch_remembered_identifiers_def call_def truthy_def mfa_manager_def broken_rmm_def
      example_rmm_def empty_context_def initial_world_def)

text \<open>
  Claim C2, amended: for every failure raised during fetch, decrypt or deserialize of a
  remembered identity, \<open>get_remembered_identifiers\<close> forgets the stored identity exactly
  once (the fetch is followed by the one call of \<open>forget_identity\<close>) and then, the forget
  having returned, raises the original error again; the security manager's
  \<open>get_remembered_identity\<close> catches that error and returns no identity, and the
  identifier-resolution step of subject creation, for a context that resolves no
  identifiers, returns normally with the context unchanged.
\<close>

theorem remembered_identity_failure_forgotten_then_swallowed:
  assumes fail: "fetch_remembered_identifiers m ctx w = (Inl e, w1)"
      and forget: "forget_identity m (OfContext ctx) (ext w1) = (Inr (), x2)"
      and rmm: "remember_me_manager sm = Some m"
      and noids: "\<not> truthy sm (context_resolve_identifiers sm ctx (c_session ctx) (ext w))"
  shows "trace w1 = trace w @ [GetRememberedEncryptedIdentity ctx]
       \<and> get_remembered_identifiers m ctx w
           = (Inl e, w1\<lparr>trace := trace w1 @ [ForgetIdentity (OfContext ctx)], ext := x2\<rparr>)
       \<and> get_remembered_identity sm ctx w
           = (Inr None, w1\<lparr>trace := trace w1 @ [ForgetIdentity (OfContext ctx)], ext := x2\<rparr>)
       \<and> resolve_identifiers sm ctx w
           = (Inr ctx, w1\<lparr>trace := trace w1 @ [ForgetIdentity (OfContext ctx)], ext := x2\<rparr>)"
proof -
  have t: "trace w1 = trace w @ [GetRememberedEncryptedIdentity ctx]"
    using fail
    by (auto simp add: fetch_remembered_identifiers_def call_def
        split: prod.splits sum.splits option.splits if_splits)
  have g: "get_remembered_identifiers m ctx w
             = (Inl e, w1\<lparr>trace := trace w1 @ [ForgetIdentity (OfContext ctx)], ext := x2\<rparr>)"
    using fail forget
    by (simp add: get_remembered_identifiers_def on_remembered_identifiers_failure_def call_def)
  have i: "get_remembered_identity sm ctx w
             = (Inr None, w1\<lparr>trace := trace w1 @ [ForgetIdentity (OfContext ctx)], ext := x2\<rparr>)"
    using g rmm by (simp add: get_remembered_identity_def)
  have r: "resolve_identifiers sm ctx w
             = (Inr ctx, w1\<lparr>trace := trace w1 @ [ForgetIdentity (OfContext ctx)], ext := x2\<rparr>)"
    using i noids by (simp add: resolve_identifiers_def truthy_def [of sm None])
  from t g i r show ?thesis by simp
qed

theorem remembered_identity_failure_forgotten_then_swallowed_witness:
  "fst (get_remembered_identifiers broken_rmm empty_context initial_world)
     = Inl (OtherException ''store unavailable'')
   \<and> trace (snd (get_remembered_identifiers broken_rmm empty_context initial_world))
     = [GetRememberedEncryptedIdentity empty_context, ForgetIdentity (OfContext empty_context)]
   \<and> ext initial_world = Some ''stale''
   \<and> ext (snd (get_remembered_identifiers broken_rmm empty_context initial_world)) = None
   \<and> fst (resolve_identifiers mfa_manager empty_context initial_world) = Inr empty_context"
proof -
  let ?w1 = "initial_world\<lparr>trace := trace initial_world @ [GetRememberedEncryptedIdentity empty_context],
                           ext := Some ''stale''\<rparr>"
  have fail: "fetch_remembered_identifiers broken_rmm empty_context initial_world
                = (Inl (OtherException ''store unavailable''), ?w1)"
    by (simp add: fetch_remembered_identifiers_def call_def broken_rmm_def example_rmm_def
        initial_world_def)
  have forget: "forget_identity broken_rmm (OfContext empty_context) (ext ?w1) = (Inr (), None)"
    by (simp add: broken_rmm_def example_rmm_def)
  have rmm: "remember_me_manager mfa_manager = Some broken_rmm"
    by (simp add: mfa_manager_def)
  have noids: "\<not> truthy mfa_manager
                   (context_resolve_identifiers mfa_manager empty_context
                      (c_session empty_context) (ext initial_world))"
    by (simp add: truthy_def mfa_manager_def empty_context_def)
  show ?thesis
    using remembered_identity_failure_forgotten_then_swallowed [OF fail forget rmm noids]
    by (simp add: initial_world_def)
qed

text \<open>
  Claim C3 as stated has \<open>login\<close> propagate a continuation error that carries the partial
  account id.  The authenticator raises \<open>AdditionalAuthenticationRequired\<close> carrying
  alice's identifiers; the error \<open>login\<close> raises carries none.
\<close>

theorem login_continuation_counterexample:
  "fst (authenticator mfa_manager (s_identifiers (heap initial_world 0)) alice_token
          (ext initial_world))
     = Inl (AdditionalAuthenticationRequired (Some [''alice'']))
   \<and> fst (login mfa_manager 0 alice_token initial_world)
     = Inl (AdditionalAuthenticationRequired None)
   \<and> fst (login mfa_manager 0 alice_token initial_world)
     \<noteq> Inl (AdditionalAuthenticationRequired (Some [''alice'']))"
  by (simp add: login_def call_def update_subject_identity_def save_def Let_def
      mfa_manager_def initial_world_def)

text \<open>
  Claim C3, amended: for every login call in which the authenticator raises
  \<open>AdditionalAuthenticationRequired\<close> carrying a partial account id \<open>P\<close>, \<open>login\<close>
  replaces the subject's identifiers with \<open>P\<close> and saves the subject again (no other
  field of the subject changes, so it is not marked authenticated, and no new subject is
  constructed: the next free reference is unchanged) and then, the save having returned,
  raises a new \<open>AdditionalAuthenticationRequired\<close> that carries no account id.
\<close>

theorem login_additional_authentication_required:
  assumes authc: "authenticator sm (s_identifiers (heap w subject)) tok (ext w)
                    = (Inl (AdditionalAuthenticationRequired P), x1)"
      and saved: "store_save sm subject ((heap w subject)\<lparr>s_identifiers := P\<rparr>) x1 = (Inr (), x2)"
  shows "login sm subject tok w
           = (Inl (AdditionalAuthenticationRequired None),
              w\<lparr>trace := trace w @ [Authenticate (s_identifiers (heap w subject)) tok,
                                     Save subject ((heap w subject)\<lparr>s_identifiers := P\<rparr>)],
                heap := (heap w)(subject := (heap w subject)\<lparr>s_identifiers := P\<rparr>),
                ext := x2\<rparr>)"
  using authc saved
  by (simp add: login_def call_def update_subject_identity_def save_def Let_def)

theorem login_additional_authentication_required_witness:
  "fst (login mfa_manager 0 alice_token initial_world)
     = Inl (AdditionalAuthenticationRequired None)
   \<and> heap (snd (login mfa_manager 0 alice_token initial_world)) 0
     = anonymous\<lparr>s_identifiers := Some [''alice'']\<rparr>
   \<and> \<not> s_authenticated (heap (snd (login mfa_manager 0 alice_token initial_world)) 0)
   \<and> next_ref (snd (login mfa_manager 0 alice_token initial_world)) = next_ref initial_world
   \<and> trace (snd (login mfa_manager 0 alice_token initial_world))
     = [Authenticate None alice_token, Save 0 (anonymous\<lparr>s_identifiers := Some [''alice'']\<rparr>)]"
proof -
  have authc: "authenticator mfa_manager (s_identifiers (heap initial_world 0)) alice_token
                 (ext initial_world)
               = (Inl (AdditionalAuthenticationRequired (Some [''alice''])), Some ''stale'')"
    by (simp add: mfa_manager_def initial_world_def)
  have saved: "store_save mfa_manager 0 ((heap initial_world 0)\<lparr>s_identifiers := Some [''alice'']\<rparr>)
                 (Some ''stale'') = (Inr (), Some ''stale'')"
    by (simp add: mfa_manager_def)
  show ?thesis
    using login_additional_authentication_required [OF authc saved]
    by (simp add: initial_world_def anonymous_def)
qed

text \<open>
  An exception of the notification's handler, or of reading the identifiers for the
  debug message, leaves \<open>logout\<close> before either clean-up step has run.
\<close>

lemma logout_raises_from_notification:
  assumes "before_logout sm s w = (Inl e, w1)"
  shows "logout sm (Some s) w = (Inl e, w1)"
  using assms by (simp add: logout_def)

lemma logout_raises_before_cleanup:
  assumes "before_logout sm s w = (Inr (), w1)"
      and "logout_identifiers sm s w1 = Inl e"
  shows "logout sm (Some s) w = (Inl e, w1)"
  using assms by (simp add: logout_def)

text \<open>
  Claim C4: \<open>logout\<close> of no subject raises \<open>ValueError\<close> and touches nothing.  For a
  subject whose logout reaches the clean-up (the notification and the reading of the
  identifiers have returned), whatever the delete step does, return or raise (\<open>rd\<close>),
  the session-stop step follows it: the subject is asked for its session and, when it has
  one (and its identifiers can be read), \<open>session.stop\<close> is called on it; and whatever
  the session-stop step does, \<open>logout\<close> returns normally.  In particular this holds when
  the delete step raises, and when both steps raise.
\<close>

theorem logout_cleanup_steps_independent:
  assumes notified: "before_logout sm s w = (Inr (), w1)"
      and message: "logout_identifiers sm s w1 = Inr ()"
      and deleted: "store_delete sm s (heap w1 s) (ext w1) = (rd, x2)"
      and asked: "subject_get_session sm s x2 = (rs, x3)"
  shows "logout sm None w = (Inl ValueError, w)
       \<and> fst (delete sm s w1) = rd
       \<and> fst (logout sm (Some s) w) = Inr ()
       \<and> snd (logout sm (Some s) w) = snd (stop_session sm s (snd (delete sm s w1)))
       \<and> trace (snd (logout sm (Some s) w))
           = trace w1 @ Delete s # GetSession s #
               (case rs of
                  Inr (Some session) \<Rightarrow>
                    (case subject_identifiers sm s (heap w1 s) x3 of
                       Inr identifiers \<Rightarrow> [SessionStop session identifiers]
                     | Inl e \<Rightarrow> [])
                | _ \<Rightarrow> [])"
proof -
  let ?w2 = "w1\<lparr>trace := trace w1 @ [Delete s], ext := x2\<rparr>"
  let ?w3 = "?w2\<lparr>trace := trace ?w2 @ [GetSession s], ext := x3\<rparr>"
  have d: "delete sm s w1 = (rd, ?w2)"
    using deleted by (simp add: delete_def call_def)
  have g: "call (GetSession s) (subject_get_session sm s) ?w2 = (rs, ?w3)"
    using asked by (simp add: call_def)
  have l: "logout sm (Some s) w = (Inr (), snd (stop_session sm s ?w2))"
    using notified message d by (simp add: logout_def Let_def)
  have t: "trace (snd (stop_session sm s ?w2))
             = trace w1 @ Delete s # GetSession s #
                 (case rs of
                    Inr (Some session) \<Rightarrow>
                      (case subject_identifiers sm s (heap w1 s) x3 of
                         Inr identifiers \<Rightarrow> [SessionStop session identifiers]
                       | Inl e \<Rightarrow> [])
                  | _ \<Rightarrow> [])"
    using g by (simp add: stop_session_def call_trace split: sum.splits option.splits)
  show ?thesis
    using d l t by (simp add: logout_def)
qed

text \<open>
  With a subject store whose delete raises and a session whose stop raises, both steps
  are attempted and \<open>logout\<close> returns.
\<close>

theorem logout_cleanup_steps_independent_witness:
  "fst (before_logout failing_manager 0 initial_world) = Inr ()
   \<and> fst (delete failing_manager 0 (snd (before_logout failing_manager 0 initial_world)))
     = Inl (OtherException ''store unavailable'')
   \<and> fst (stop_session failing_manager 0
            (snd (delete failing_manager 0 (snd (before_logout failing_manager 0 initial_world)))))
     = Inl InvalidSessionException
   \<and> fst (logout failing_manager (Some 0) initial_world) = Inr ()
   \<and> trace (snd (logout failing_manager (Some 0) initial_world))
     = [ForgetIdentity (OfSubject 0), Delete 0, GetSession 0, SessionStop 7 None]"
proof -
  let ?w1 = "initial_world\<lparr>trace := trace initial_world @ [ForgetIdentity (OfSubject 0)],
                           ext := None\<rparr>"
  have notified: "before_logout failing_manager 0 initial_world = (Inr (), ?w1)"
    by (simp add: before_logout_def remember_me_logout_def on_logout_def call_def
        failing_manager_def mfa_manager_def example_rmm_def)
  have message: "logout_identifiers failing_manager 0 ?w1 = Inr ()"
    by (simp add: logout_identifiers_def failing_manager_def mfa_manager_def initial_world_def
        anonymous_def)
  have deleted: "store_delete failing_manager 0 (heap ?w1 0) (ext ?w1)
                   = (Inl (OtherException ''store unavailable''), None)"
    by (simp add: failing_manager_def mfa_manager_def)
  have asked: "subject_get_session failing_manager 0 None = (Inr (Some 7), None)"
    by (simp add: failing_manager_def mfa_manager_def)
  have ids: "subject_identifiers failing_manager 0 (heap ?w1 0) None = Inr None"
    by (simp add: failing_manager_def mfa_manager_def initial_world_def anonymous_def)
  have stop: "fst (stop_session failing_manager 0 (snd (delete failing_manager 0 ?w1)))
                = Inl InvalidSessionException"
    by (simp add: stop_session_def delete_def call_def failing_manager_def mfa_manager_def
        initial_world_def anonymous_def)
  note facts = logout_cleanup_steps_independent [OF notified message deleted asked]
  have returned: "fst (logout failing_manager (Some 0) initial_world) = Inr ()"
    using facts [THEN conjunct2, THEN conjunct2, THEN conjunct1] .
  have traced: "trace (snd (logout failing_manager (Some 0) initial_world))
                  = [ForgetIdentity (OfSubject 0), Delete 0, GetSession 0, SessionStop 7 None]"
    using facts [THEN conjunct2, THEN conjunct2, THEN conjunct2, THEN conjunct2] ids
    by (simp add: initial_world_def)
  have raised: "fst (delete failing_manager 0 ?w1) = Inl (OtherException ''store unavailable'')"
    using facts [THEN conjunct2, THEN conjunct1] .
  show ?thesis
    using notified raised stop returned traced by simp
qed


text \<open>
  Claim C5 as stated has a new identity remembered whenever the token requests
  remember-me.  With a token that requests it and a manager as its constructor leaves it
  (no serialization manager injected), the hook forgets the stored identity, raises
  \<open>AttributeError\<close> and remembers nothing.
\<close>

theorem on_successful_login_not_remembered_counterexample:
  "is_remember_me remember_token
   \<and> serialization_manager uninjected_rmm = None
   \<and> fst (on_successful_login uninjected_rmm 0 remember_token (Some [''alice'']) initial_world)
     = Inl AttributeError
   \<and> trace (snd (on_successful_login uninjected_rmm 0 remember_token (Some [''alice''])
                    initial_world))
     = [ForgetIdentity (OfSubject 0)]
   \<and> ext (snd (on_successful_login uninjected_rmm 0 remember_token (Some [''alice''])
                  initial_world))
     = None"
  by (simp add: on_successful_login_def remember_identity_def get_identity_to_remember_def
      convert_identifiers_to_bytes_def call_def uninjected_rmm_def example_rmm_def
      remember_token_def alice_token_def initial_world_def)

text \<open>
  Claim C5, amended: every call of the successful-login hook first calls
  \<open>forget_identity\<close>, once, whatever the token; when the forget raises, its error
  propagates and nothing else happens.  After a forget that returned: when the token
  requests remember-me the identity is serialised and encrypted and handed to
  \<open>remember_encrypted_identity\<close>, or, when it cannot be serialised and encrypted, that
  error propagates and nothing is remembered; when the token does not request
  remember-me, no further state change occurs.  So an identity is remembered only if the
  token requests remember-me, and it is remembered whenever the token requests it, the
  forget returned and the identity could be serialised and encrypted.
\<close>

theorem on_successful_login_forgets_then_remembers:
  "trace (snd (on_successful_login m subject tok account_id w))
     = trace w @ ForgetIdentity (OfSubject subject) #
         (if is_remember_me tok \<and> \<not> isl (fst (forget_identity m (OfSubject subject) (ext w)))
          then (case convert_identifiers_to_bytes m account_id of
                  Inl e \<Rightarrow> []
                | Inr encrypted \<Rightarrow> [RememberEncryptedIdentity subject encrypted])
          else [])
   \<and> (\<forall>e x1. forget_identity m (OfSubject subject) (ext w) = (Inl e, x1) \<longrightarrow>
         on_successful_login m subject tok account_id w
           = (Inl e, w\<lparr>trace := trace w @ [ForgetIdentity (OfSubject subject)], ext := x1\<rparr>))
   \<and> (\<forall>x1. forget_identity m (OfSubject subject) (ext w) = (Inr (), x1) \<longrightarrow>
         on_successful_login m subject tok account_id w
           = (if is_remember_me tok
              then (case convert_identifiers_to_bytes m account_id of
                      Inl e \<Rightarrow>
                        (Inl e, w\<lparr>trace := trace w @ [ForgetIdentity (OfSubject subject)],
                                  ext := x1\<rparr>)
                    | Inr encrypted \<Rightarrow>
                        call (RememberEncryptedIdentity subject encrypted)
                          (remember_encrypted_identity m subject encrypted)
                          (w\<lparr>trace := trace w @ [ForgetIdentity (OfSubject subject)],
                             ext := x1\<rparr>))
              else (Inr (), w\<lparr>trace := trace w @ [ForgetIdentity (OfSubject subject)],
                              ext := x1\<rparr>)))"
  by (cases "forget_identity m (OfSubject subject) (ext w)")
     (auto simp add: on_successful_login_def remember_identity_def call_def
        get_identity_to_remember_def split: sum.splits prod.splits)

theorem on_successful_login_forgets_then_remembers_witness:
  "ext initial_world = Some ''stale''
   \<and> on_successful_login example_rmm 0 remember_token (Some [''alice'']) initial_world
     = (Inr (), initial_world\<lparr>trace := [ForgetIdentity (OfSubject 0),
                                          RememberEncryptedIdentity 0 ''kalice''],
                                ext := Some ''kalice''\<rparr>)
   \<and> \<not> is_remember_me alice_token
   \<and> on_successful_login example_rmm 0 alice_token (Some [''alice'']) initial_world
     = (Inr (), initial_world\<lparr>trace := [ForgetIdentity (OfSubject 0)], ext := None\<rparr>)
   \<and> on_successful_login uninjected_rmm 0 remember_token (Some [''alice'']) initial_world
     = (Inl AttributeError,
        initial_world\<lparr>trace := [ForgetIdentity (OfSubject 0)], ext := None\<rparr>)"
proof -
  have c: "convert_identifiers_to_bytes example_rmm (Some [''alice'']) = Inr ''kalice''"
    by (simp add: convert_identifiers_to_bytes_def encrypt_def example_rmm_def
        example_serialization_def)
  have n: "convert_identifiers_to_bytes uninjected_rmm (Some [''alice'']) = Inl AttributeError"
    by (simp add: convert_identifiers_to_bytes_def uninjected_rmm_def example_rmm_def)
  have f: "forget_identity example_rmm (OfSubject 0) (ext initial_world) = (Inr (), None)"
    by (simp add: example_rmm_def)
  have g: "forget_identity uninjected_rmm (OfSubject 0) (ext initial_world) = (Inr (), None)"
    by (simp add: uninjected_rmm_def example_rmm_def)
  have k: "is_remember_me remember_token \<and> \<not> is_remember_me alice_token"
    by (simp add: remember_token_def alice_token_def)
  have r: "remember_encrypted_identity example_rmm 0 ''kalice'' None = (Inr (), Some ''kalice'')"
    by (simp add: example_rmm_def)
  have t: "trace initial_world = [] \<and> ext initial_world = Some ''stale''"
    by (simp add: initial_world_def)
  note remembered = on_successful_login_forgets_then_remembers
      [of example_rmm 0 remember_token "Some [''alice'']" initial_world,
       THEN conjunct2, THEN conjunct2, rule_format, OF f]
  note skipped = on_successful_login_forgets_then_remembers
      [of example_rmm 0 alice_token "Some [''alice'']" initial_world,
       THEN conjunct2, THEN conjunct2, rule_format, OF f]
  note failed = on_successful_login_forgets_then_remembers
      [of uninjected_rmm 0 remember_token "Some [''alice'']" initial_world,
       THEN conjunct2, THEN conjunct2, rule_format, OF g]
  show ?thesis
    using remembered skipped failed c n k r t by (simp add: call_def)
qed

end
